theory Spec2Isabelle
  imports Main "HOL-Library.AList"
begin

section \<open>JavaScript values\<close>

text \<open>
  The sync-run route works on untyped JSON (\<open>any\<close>): checkpoint blobs, catalog stream
  descriptors and selection directives. They are embedded as one datatype.

  A number is kept as the string JavaScript renders it as (\<open>Number::toString\<close>:
  \<open>"5"\<close>, \<open>"1.5"\<close>, \<open>"1e+21"\<close>), so that its coercion to a string is exact; zero of
  either sign renders as \<open>"0"\<close> and not-a-number as \<open>"NaN"\<close>. An object is an
  association list of its own properties, with distinct keys. \<open>JNative n\<close> is the member
  \<open>n\<close> that every plain object inherits from \<open>Object.prototype\<close>: a built-in function,
  or for \<open>__proto__\<close> the prototype object itself.
\<close>

datatype jsval =
    JUndefined
  | JNull
  | JBool bool
  | JNum string
  | JStr string
  | JArr "jsval list"
  | JObj "(string \<times> jsval) list"
  | JNative string

type_synonym obj = "(string \<times> jsval) list"

text \<open>
  JavaScript truthiness, as used by \<open>!!v\<close>, \<open>v ? a : b\<close> and \<open>if (!v)\<close>: the falsy values
  are \<open>undefined\<close>, \<open>null\<close>, \<open>false\<close>, zero, not-a-number and the empty string.
\<close>

fun truthy :: "jsval \<Rightarrow> bool" where
  "truthy JUndefined = False"
| "truthy JNull = False"
| "truthy (JBool b) = b"
| "truthy (JNum r) = (r \<noteq> ''0'' \<and> r \<noteq> ''NaN'')"
| "truthy (JStr s) = (s \<noteq> [])"
| "truthy (JArr xs) = True"
| "truthy (JObj kvs) = True"
| "truthy (JNative n) = True"

text \<open>The names of the properties of \<open>Object.prototype\<close>.\<close>

definition objectPrototype :: "string list" where
  "objectPrototype =
     [''constructor'', ''__defineGetter__'', ''__defineSetter__'', ''hasOwnProperty'',
      ''__lookupGetter__'', ''__lookupSetter__'', ''isPrototypeOf'', ''propertyIsEnumerable'',
      ''toString'', ''valueOf'', ''__proto__'', ''toLocaleString'']"

text \<open>
  Property read \<open>o[k]\<close> on a plain object: an own property first, then the prototype
  chain, which for an object parsed from JSON is \<open>Object.prototype\<close> alone; otherwise
  \<open>undefined\<close>.
\<close>

definition getProp :: "obj \<Rightarrow> string \<Rightarrow> jsval" where
  "getProp ob k =
     (case map_of ob k of
        Some v \<Rightarrow> v
      | None \<Rightarrow> if k \<in> set objectPrototype then JNative k else JUndefined)"

text \<open>Decimal rendering of an array index.\<close>

fun showNat :: "nat \<Rightarrow> string" where
  "showNat n =
     (if n < 10 then [''0123456789'' ! n]
      else showNat (n div 10) @ [''0123456789'' ! (n mod 10)])"

declare showNat.simps [simp del]

fun joinComma :: "string list \<Rightarrow> string" where
  "joinComma [] = []"
| "joinComma [s] = s"
| "joinComma (s # t # ss) = s @ '','' @ joinComma (t # ss)"

text \<open>
  String coercion, as applied by \<open>a + "." + b\<close> and by a computed property key. An array
  joins its elements with commas, \<open>null\<close> and \<open>undefined\<close> elements rendering as the
  empty string; a plain object renders as \<open>[object Object]\<close>; a built-in function renders
  as Node prints it, under its own name (\<open>Object\<close> for the member \<open>constructor\<close>).
  JavaScript cannot coerce an object that has a \<open>toString\<close> property of its own (it
  throws a \<open>TypeError\<close>); the catalog is taken to name no stream by such an object.
\<close>

fun toStr :: "jsval \<Rightarrow> string" where
  "toStr JUndefined = ''undefined''"
| "toStr JNull = ''null''"
| "toStr (JBool b) = (if b then ''true'' else ''false'')"
| "toStr (JNum r) = r"
| "toStr (JStr s) = s"
| "toStr (JArr xs) =
     joinComma (map (\<lambda>x. if x = JUndefined \<or> x = JNull then [] else toStr x) xs)"
| "toStr (JObj kvs) = ''[object Object]''"
| "toStr (JNative n) =
     (if n = ''__proto__'' then ''[object Object]''
      else ''function '' @ (if n = ''constructor'' then ''Object'' else n)
             @ ''() { [native code] }'')"

text \<open>
  Object spread \<open>{...v}\<close>: the own enumerable properties of \<open>v\<close>. An object gives its
  fields, an array and a string their indexed elements, every other value (a built-in
  function and the prototype object among them) nothing.
\<close>

definition indexed :: "jsval list \<Rightarrow> obj" where
  "indexed xs = map (\<lambda>i. (showNat i, xs ! i)) [0 ..< length xs]"

fun spread :: "jsval \<Rightarrow> obj" where
  "spread (JObj kvs) = kvs"
| "spread (JArr xs) = indexed xs"
| "spread (JStr s) = indexed (map (\<lambda>c. JStr [c]) s)"
| "spread v = []"

section \<open>Catalog Resolver: \<open>selectStreamsFromCatalog\<close>\<close>

text \<open>
  \<open>s.namespace ? s.namespace + "." + s.name : s.name\<close>, the key under which a catalog
  stream is looked up in the selection.
\<close>

definition streamKey :: "obj \<Rightarrow> string" where
  "streamKey s =
     (if truthy (getProp s ''namespace'')
      then toStr (getProp s ''namespace'') @ ''.'' @ toStr (getProp s ''name'')
      else toStr (getProp s ''name''))"

text \<open>
  The entry built by the \<open>map\<close> callback:
  \<open>{...stream, destination_sync_mode: "overwrite", stream: s}\<close>. A later key of an
  object literal replaces an earlier one in place.
\<close>

definition configuredStream :: "obj \<Rightarrow> obj \<Rightarrow> jsval" where
  "configuredStream selectedStreams s =
     (let stream = getProp selectedStreams (streamKey s)
      in JObj (AList.update ''stream'' (JObj s)
                (AList.update ''destination_sync_mode'' (JStr ''overwrite'')
                  (spread stream))))"

record catalog =
  streams :: "obj list"

definition selectStreamsFromCatalog :: "catalog \<Rightarrow> obj \<Rightarrow> jsval" where
  "selectStreamsFromCatalog cat selectedStreams =
     (let strs = map (configuredStream selectedStreams)
                   (filter (\<lambda>s. truthy (getProp selectedStreams (streamKey s))) (streams cat))
      in JObj [(''streams'', JArr strs)])"

section \<open>Persisted tables\<close>

text \<open>
  The rows the route reads through Prisma and the connection pool. A link row carries
  the joined \<open>from\<close> service (\<open>include: {from: true}\<close>), absent when the join finds
  none. The JSON columns \<open>config\<close>, \<open>data\<close> and \<open>catalog\<close> are read at the fields the
  route uses: package, version and credentials of a service, storage key and stream
  selection (\<open>data.streams\<close>) of a link, the stream list of a catalog, each stream a
  JSON object. A table is the list of its rows in the order the database returns them,
  and the database calls themselves do not fail.
\<close>

record service_config =
  package :: string
  version :: string
  credentials :: obj

record service =
  config :: service_config

record link_data =
  storageKey :: string
  selected :: obj

record link =
  link_id :: string
  link_workspaceId :: string
  deleted :: bool
  link_type :: string
  fromId :: string
  link_from :: "service option"
  link_data :: link_data

record source_task =
  task_id :: string
  task_sync_id :: string
  task_status :: string

record source_state =
  state_sync_id :: string
  stream :: string
  state :: jsval

record source_catalog =
  cat_key :: string
  cat_package :: string
  cat_version :: string
  cat_catalog :: catalog

record db =
  configurationObjectLink :: "link list"
  source_task_rows :: "source_task list"
  source_state_rows :: "source_state list"
  source_catalog_rows :: "source_catalog list"

section \<open>State Repository Adapter: decoding checkpoint rows\<close>

datatype exn =
    ApiError string nat
  | Error string

text \<open>\<open>String.prototype.split\<close> on a one-character separator.\<close>

fun split :: "char \<Rightarrow> string \<Rightarrow> string list" where
  "split c [] = [[]]"
| "split c (x # xs) =
     (if x = c then [] # split c xs
      else (case split c xs of [] \<Rightarrow> [[x]] | y # ys \<Rightarrow> (x # y) # ys))"

text \<open>\<open>Array.prototype.map\<close> with a callback that may throw: the first throw ends it.\<close>

fun mapThrowing :: "('a \<Rightarrow> exn + 'b) \<Rightarrow> 'a list \<Rightarrow> exn + 'b list" where
  "mapThrowing f [] = Inr []"
| "mapThrowing f (x # xs) =
     (case f x of
        Inl e \<Rightarrow> Inl e
      | Inr y \<Rightarrow> (case mapThrowing f xs of Inl e \<Rightarrow> Inl e | Inr ys \<Rightarrow> Inr (y # ys)))"

text \<open>
  The callback of the multi-stream branch: the entry
  \<open>{type: "STREAM", stream: {stream_descriptor: {name, namespace}, stream_state}}\<close> of a
  row, \<open>namespace\<close> staying \<open>undefined\<close> when the key has one segment.
\<close>

definition decodeStreamRow :: "source_state \<Rightarrow> exn + jsval" where
  "decodeStreamRow r =
     (let descr = split CHR ''.'' (stream r)
      in if length descr = 1
         then Inr (JObj [(''type'', JStr ''STREAM''),
                         (''stream'',
                          JObj [(''stream_descriptor'',
                                 JObj [(''name'', JStr (descr ! 0)),
                                       (''namespace'', JUndefined)]),
                                (''stream_state'', state r)])])
         else if length descr = 2
         then Inr (JObj [(''type'', JStr ''STREAM''),
                         (''stream'',
                          JObj [(''stream_descriptor'',
                                 JObj [(''name'', JStr (descr ! 1)),
                                       (''namespace'', JStr (descr ! 0))]),
                                (''stream_state'', state r)])])
         else Inl (Error (''Invalid stream name '' @ stream r)))"

definition notSentinel :: "source_state \<Rightarrow> bool" where
  "notSentinel r = (stream r \<noteq> ''_LEGACY_STATE'' \<and> stream r \<noteq> ''_GLOBAL_STATE'')"

text \<open>
  The \<open>else\<close> branch of the \<open>fullSync\<close> test, from the fetched rows to \<open>stateObj\<close>
  (\<open>undefined\<close> when there is no row).
\<close>

definition decodeState :: "source_state list \<Rightarrow> exn + jsval" where
  "decodeState stateRows =
     (if length stateRows > 0 then
        if length stateRows = 1 \<and> stream (stateRows ! 0) = ''_LEGACY_STATE''
        then Inr (state (stateRows ! 0))
        else if length stateRows = 1 \<and> stream (stateRows ! 0) = ''_GLOBAL_STATE''
        then Inr (JArr [JObj [(''type'', JStr ''GLOBAL''), (''global'', state (stateRows ! 0))]])
        else (case mapThrowing decodeStreamRow (filter notSentinel stateRows) of
                Inl e \<Rightarrow> Inl e
              | Inr entries \<Rightarrow> Inr (JArr entries))
      else Inr JUndefined)"

section \<open>Run Dispatcher: the sync-run route\<close>

record query =
  workspaceId :: string
  syncId :: string
  fullSync :: "string option"

record running_task =
  rt_taskId :: string
  rt_status :: string
  rt_logs :: string

record result =
  ok :: bool
  error :: "string option"
  taskId :: "string option"
  status :: "string option"
  logs :: "string option"
  runningTask :: "running_task option"

text \<open>The body of the dispatch call; \<open>req_state = None\<close> is a body without a \<open>state\<close> key.\<close>

record request =
  req_url :: string
  req_headers :: "(string \<times> string) list"
  req_package :: string
  req_version :: string
  req_taskId :: string
  req_syncId :: string
  req_config :: jsval
  req_catalog :: jsval
  req_state :: "jsval option"

record response =
  res_ok :: bool
  res_error :: "string option"

text \<open>
  What the route takes from outside: the process environment, the request headers, and
  the collaborators it calls (user lookup, access check, UUID generation, credential
  resolution, the RPC client, the rendering of an error for the caller).
\<close>

record env =
  SYNCCTL_AUTH_KEY :: "string option"
  SYNCCTL_URL :: "string option"
  authorization :: "string option"
  getUser :: "string option"
  verifyAccess :: "string \<Rightarrow> string \<Rightarrow> exn option"
  baseUrl :: string
  randomUUID :: string
  tryManageOauthCreds :: "service_config \<Rightarrow> string \<Rightarrow> exn + jsval"
  rpc :: "request \<Rightarrow> exn + response"
  publicMessage :: "string \<Rightarrow> exn \<Rightarrow> bool \<Rightarrow> string \<Rightarrow> string"

text \<open>
  The effects of a call besides its answer: the tables as it leaves them, and the trace
  of the writes and outgoing calls it made, in order.
\<close>

datatype event =
    DeleteMany string
  | Rpc request

type_synonym outcome = "(exn + result) \<times> db \<times> event list"

definition failure :: "string \<Rightarrow> result" where
  "failure msg =
     \<lparr>ok = False, error = Some msg, taskId = None, status = None, logs = None,
      runningTask = None\<rparr>"

text \<open>
  Modelled from the spec: \<open>syncError\<close> of \<open>lib/shared/errors\<close> is not among the sources.
  The route calls it with a message, the caught exception, a mask flag and a private
  argument for the log. The spec has every exception caught at the top level "converted
  into the same \<open>{ok:false, error}\<close> shape with server-side logging"; the wording of the
  message is left to the environment.
\<close>

definition syncError :: "env \<Rightarrow> string \<Rightarrow> exn \<Rightarrow> bool \<Rightarrow> string \<Rightarrow> result" where
  "syncError e msg ex masked privateArg = failure (publicMessage e msg ex masked privateArg)"

definition tasksUrl :: "env \<Rightarrow> query \<Rightarrow> string \<Rightarrow> string" where
  "tasksUrl e q tid =
     baseUrl e @ ''/api/'' @ workspaceId q @ ''/sources/tasks?taskId='' @ tid
       @ ''&syncId='' @ syncId q"

definition logsUrl :: "env \<Rightarrow> query \<Rightarrow> string \<Rightarrow> string" where
  "logsUrl e q tid =
     baseUrl e @ ''/api/'' @ workspaceId q @ ''/sources/logs?taskId='' @ tid
       @ ''&syncId='' @ syncId q"

definition catalogFromDb :: "db \<Rightarrow> string \<Rightarrow> string \<Rightarrow> string \<Rightarrow> catalog option" where
  "catalogFromDb d packageName ver key =
     (case filter (\<lambda>r. cat_key r = key \<and> cat_package r = packageName \<and> cat_version r = ver)
             (source_catalog_rows d) of
        [r] \<Rightarrow> Some (cat_catalog r)
      | _ \<Rightarrow> None)"

text \<open>\<open>String.prototype.replace\<close> with a string pattern: the first occurrence only.\<close>

fun replace :: "string \<Rightarrow> string \<Rightarrow> string \<Rightarrow> string" where
  "replace pat rep [] = (if pat = [] then rep else [])"
| "replace pat rep (c # cs) =
     (if take (length pat) (c # cs) = pat then rep @ drop (length pat) (c # cs)
      else c # replace pat rep cs)"

text \<open>
  The authorization prelude: the shared secret first, the user otherwise. \<open>None\<close> means
  the request goes on.
\<close>

definition authorize :: "env \<Rightarrow> query \<Rightarrow> exn option" where
  "authorize e q =
     (let syncAuthKey = (case SYNCCTL_AUTH_KEY e of None \<Rightarrow> [] | Some k \<Rightarrow> k);
          token = (case authorization e of None \<Rightarrow> [] | Some t \<Rightarrow> t)
      in if replace ''Bearer '' [] token \<noteq> syncAuthKey \<or> token = [] \<or> syncAuthKey = []
         then (case getUser e of
                 None \<Rightarrow> Some (ApiError ''Authorization Required'' 401)
               | Some user \<Rightarrow> verifyAccess e user (workspaceId q))
         else None)"

definition authHeaders :: "env \<Rightarrow> (string \<times> string) list" where
  "authHeaders e =
     (case SYNCCTL_AUTH_KEY e of
        None \<Rightarrow> []
      | Some k \<Rightarrow> if k = [] then [] else [(''Authorization'', ''Bearer '' @ k)])"

text \<open>
  The arguments of the one \<open>rpc\<close> call: \<open>POST syncURL/read\<close> with the package, version,
  task and sync ids in the query and the credentials, configured catalog and, when
  \<open>stateObj\<close> is truthy, the state in the body.
\<close>

definition readRequest ::
  "env \<Rightarrow> string \<Rightarrow> query \<Rightarrow> service \<Rightarrow> string \<Rightarrow> jsval \<Rightarrow> jsval \<Rightarrow> jsval \<Rightarrow> request" where
  "readRequest e syncURL q srv tid creds configuredCatalog stateObj =
     \<lparr>req_url = syncURL @ ''/read'',
      req_headers = (''Content-Type'', ''application/json'') # authHeaders e,
      req_package = package (config srv),
      req_version = version (config srv),
      req_taskId = tid,
      req_syncId = syncId q,
      req_config = creds,
      req_catalog = configuredCatalog,
      req_state = (if truthy stateObj then Some stateObj else None)\<rparr>"

text \<open>
  From the catalog lookup to the answer of the execution service. The credentials are
  resolved while the arguments of \<open>rpc\<close> are built, so a failure there leaves \<open>rpc\<close>
  uncalled.
\<close>

definition dispatch ::
  "env \<Rightarrow> string \<Rightarrow> query \<Rightarrow> link \<Rightarrow> service \<Rightarrow> jsval \<Rightarrow> db \<Rightarrow> event list \<Rightarrow> outcome" where
  "dispatch e syncURL q sync srv stateObj d tr =
     (case catalogFromDb d (package (config srv)) (version (config srv))
             (storageKey (link_data sync)) of
        None \<Rightarrow>
          (Inr (failure ''Catalog not found. Please run Refresh Catalog in Sync settings''),
           d, tr)
      | Some cat \<Rightarrow>
          (let configuredCatalog = selectStreamsFromCatalog cat (selected (link_data sync));
               tid = randomUUID e
           in case tryManageOauthCreds e (config srv) (fromId sync) of
                Inl ex \<Rightarrow> (Inl ex, d, tr)
              | Inr creds \<Rightarrow>
                  (let rq = readRequest e syncURL q srv tid creds configuredCatalog stateObj
                   in case rpc e rq of
                        Inl ex \<Rightarrow> (Inl ex, d, tr @ [Rpc rq])
                      | Inr res \<Rightarrow>
                          if \<not> res_ok res
                          then (Inr ((failure (case res_error res of
                                                 None \<Rightarrow> ''unknown error''
                                               | Some m \<Rightarrow> m))
                                       \<lparr>taskId := Some tid\<rparr>),
                                d, tr @ [Rpc rq])
                          else (Inr \<lparr>ok = True, error = None, taskId = Some tid,
                                     status = Some (tasksUrl e q tid),
                                     logs = Some (logsUrl e q tid),
                                     runningTask = None\<rparr>,
                                d, tr @ [Rpc rq]))))"

text \<open>
  The checkpoint step: \<open>deleteMany\<close> and \<open>findMany\<close> on \<open>source_state\<close> by \<open>sync_id\<close>.
  A full sync deletes the rows and leaves \<open>stateObj\<close> undefined, any other run decodes
  them.
\<close>

definition deleteManyState :: "db \<Rightarrow> string \<Rightarrow> db" where
  "deleteManyState d sid =
     d\<lparr>source_state_rows := filter (\<lambda>r. state_sync_id r \<noteq> sid) (source_state_rows d)\<rparr>"

definition findManyState :: "db \<Rightarrow> string \<Rightarrow> source_state list" where
  "findManyState d sid = filter (\<lambda>r. state_sync_id r = sid) (source_state_rows d)"

definition isFullSync :: "query \<Rightarrow> bool" where
  "isFullSync q = (fullSync q = Some ''true'' \<or> fullSync q = Some ''1'')"

definition loadState :: "query \<Rightarrow> db \<Rightarrow> (exn + jsval) \<times> db \<times> event list" where
  "loadState q d =
     (if isFullSync q
      then (Inr JUndefined, deleteManyState d (syncId q), [DeleteMany (syncId q)])
      else (decodeState (findManyState d (syncId q)), d, []))"

text \<open>The \<open>where\<close> clauses of the two \<open>findFirst\<close> queries.\<close>

definition syncWhere :: "query \<Rightarrow> link \<Rightarrow> bool" where
  "syncWhere q l =
     (link_id l = syncId q \<and> link_workspaceId l = workspaceId q
      \<and> deleted l = False \<and> link_type l = ''sync'')"

definition runningWhere :: "query \<Rightarrow> source_task \<Rightarrow> bool" where
  "runningWhere q t = (task_sync_id t = syncId q \<and> task_status t = ''RUNNING'')"

text \<open>
  The \<open>try\<close> block. A link without its service is answered with the template
  \<open>Service ${sync.from} not found\<close>, in which the absent service renders as \<open>null\<close>.
\<close>

definition tryBlock :: "env \<Rightarrow> string \<Rightarrow> query \<Rightarrow> db \<Rightarrow> outcome" where
  "tryBlock e syncURL q d =
     (case find (syncWhere q) (configurationObjectLink d) of
        None \<Rightarrow> (Inr (failure (''Sync '' @ syncId q @ '' not found'')), d, [])
      | Some sync \<Rightarrow>
          (case find (runningWhere q) (source_task_rows d) of
             Some running \<Rightarrow>
               (Inr ((failure ''Sync is already running'')
                       \<lparr>runningTask :=
                          Some \<lparr>rt_taskId = task_id running,
                                rt_status = tasksUrl e q (task_id running),
                                rt_logs = logsUrl e q (task_id running)\<rparr>\<rparr>),
                d, [])
           | None \<Rightarrow>
               (case link_from sync of
                  None \<Rightarrow> (Inr (failure ''Service null not found''), d, [])
                | Some srv \<Rightarrow>
                    (case loadState q d of
                       (Inl ex, d', tr) \<Rightarrow> (Inl ex, d', tr)
                     | (Inr stateObj, d', tr) \<Rightarrow>
                         dispatch e syncURL q sync srv stateObj d' tr))))"

text \<open>
  The \<open>catch\<close> clause: whatever the \<open>try\<close> block throws is answered with \<open>syncError\<close>;
  what was done before the throw stays done.
\<close>

definition caught :: "env \<Rightarrow> query \<Rightarrow> exn \<Rightarrow> result" where
  "caught e q ex =
     syncError e ''Error running sync'' ex False
       (''sync: '' @ syncId q @ '' workspace: '' @ workspaceId q)"

definition catchAll :: "env \<Rightarrow> query \<Rightarrow> outcome \<Rightarrow> outcome" where
  "catchAll e q out =
     (case out of
        (Inl ex, d', tr) \<Rightarrow> (Inr (caught e q ex), d', tr)
      | (Inr r, d', tr) \<Rightarrow> (Inr r, d', tr))"

text \<open>
  The handler: authorization and the controller URL come first and throw past the
  route; the rest runs inside \<open>try\<close>/\<open>catch\<close>.
\<close>

definition handler :: "env \<Rightarrow> query \<Rightarrow> db \<Rightarrow> outcome" where
  "handler e q d =
     (case authorize e q of
        Some ex \<Rightarrow> (Inl ex, d, [])
      | None \<Rightarrow>
          (case SYNCCTL_URL e of
             None \<Rightarrow>
               (Inl (Error ''env SYNCCTL_URL is not set. Sync Controller is required to run sources''),
                d, [])
           | Some syncURL \<Rightarrow> catchAll e q (tryBlock e syncURL q d)))"

section \<open>Path conditions\<close>

text \<open>
  A call gets to the checkpoint step when it is authorized, the controller URL is set,
  the sync link is found, no task of the sync is running and the link has its service.
\<close>

definition passesChecks :: "env \<Rightarrow> query \<Rightarrow> db \<Rightarrow> string \<Rightarrow> link \<Rightarrow> service \<Rightarrow> bool" where
  "passesChecks e q d syncURL sync srv =
     (authorize e q = None \<and> SYNCCTL_URL e = Some syncURL
      \<and> find (syncWhere q) (configurationObjectLink d) = Some sync
      \<and> find (runningWhere q) (source_task_rows d) = None
      \<and> link_from sync = Some srv)"

section \<open>A sample workspace\<close>

text \<open>
  Concrete data on which the theorems below are instantiated: one workspace \<open>w1\<close> with
  one sync \<open>s1\<close> reading from service \<open>svc1\<close>, a catalog of two streams of which the sync
  selects \<open>a\<close>, and a caller holding the shared secret.
\<close>

definition sample_env :: env where
  "sample_env =
     \<lparr>SYNCCTL_AUTH_KEY = Some ''k'', SYNCCTL_URL = Some ''http://syncctl'',
      authorization = Some ''Bearer k'', getUser = None,
      verifyAccess = (\<lambda>u w. None), baseUrl = ''https://app'',
      randomUUID = ''uuid-1'',
      tryManageOauthCreds = (\<lambda>c i. Inr (JObj ((''id'', JStr i) # credentials c))),
      rpc = (\<lambda>r. Inr \<lparr>res_ok = True, res_error = None\<rparr>),
      publicMessage = (\<lambda>m x b p. m)\<rparr>"

text \<open>The same caller against a controller that answers \<open>{ok:false, error:"boom"}\<close>.\<close>

definition sample_env_boom :: env where
  "sample_env_boom =
     sample_env\<lparr>rpc := (\<lambda>r. Inr \<lparr>res_ok = False, res_error = Some ''boom''\<rparr>)\<rparr>"

text \<open>The same caller when the token refresh fails.\<close>

definition sample_env_refresh_fails :: env where
  "sample_env_refresh_fails =
     sample_env\<lparr>tryManageOauthCreds := (\<lambda>c i. Inl (Error ''token refresh failed''))\<rparr>"

definition sample_service :: service where
  "sample_service =
     \<lparr>config = \<lparr>package = ''airbyte/source-x'', version = ''1.0'', credentials = []\<rparr>\<rparr>"

definition sample_selection :: obj where
  "sample_selection = [(''a'', JObj [(''sync_mode'', JStr ''incremental'')])]"

definition sample_link :: link where
  "sample_link =
     \<lparr>link_id = ''s1'', link_workspaceId = ''w1'', deleted = False, link_type = ''sync'',
      fromId = ''svc1'', link_from = Some sample_service,
      link_data = \<lparr>storageKey = ''key1'', selected = sample_selection\<rparr>\<rparr>"

definition sample_catalog :: catalog where
  "sample_catalog =
     \<lparr>streams = [[(''name'', JStr ''a'')],
                 [(''name'', JStr ''b''), (''namespace'', JStr ''ns'')]]\<rparr>"

definition sample_rows :: "source_state list" where
  "sample_rows =
     [\<lparr>state_sync_id = ''s1'', stream = ''ns1.orders'', state = JNum ''5''\<rparr>,
      \<lparr>state_sync_id = ''s2'', stream = ''_LEGACY_STATE'', state = JNum ''9''\<rparr>,
      \<lparr>state_sync_id = ''s1'', stream = ''customers'', state = JNum ''7''\<rparr>]"

definition sample_db :: db where
  "sample_db =
     \<lparr>configurationObjectLink = [sample_link],
      source_task_rows = [],
      source_state_rows = sample_rows,
      source_catalog_rows =
        [\<lparr>cat_key = ''key1'', cat_package = ''airbyte/source-x'', cat_version = ''1.0'',
          cat_catalog = sample_catalog\<rparr>]\<rparr>"

definition sample_query :: query where
  "sample_query = \<lparr>workspaceId = ''w1'', syncId = ''s1'', fullSync = None\<rparr>"

definition sample_running :: source_task where
  "sample_running = \<lparr>task_id = ''t0'', task_sync_id = ''s1'', task_status = ''RUNNING''\<rparr>"

section \<open>Unfolding sets\<close>

lemmas sample_defs = sample_env_def sample_service_def sample_selection_def sample_link_def
  sample_catalog_def sample_rows_def sample_db_def sample_query_def

lemmas run_defs = handler_def authorize_def catchAll_def caught_def tryBlock_def syncWhere_def
  runningWhere_def failure_def tasksUrl_def logsUrl_def loadState_def dispatch_def
  catalogFromDb_def readRequest_def authHeaders_def syncError_def isFullSync_def
  findManyState_def deleteManyState_def Let_def

section \<open>Objects and the catalog selection\<close>

lemma getProp_own: "map_of ob k = Some v \<Longrightarrow> getProp ob k = v"
  by (simp add: getProp_def)

lemma getProp_update:
  "getProp (AList.update k v al) k' = (if k' = k then v else getProp al k')"
  by (simp add: getProp_def update_conv')

lemma truthy_getProp_cases:
  "truthy (getProp sel k) \<Longrightarrow> map_of sel k \<noteq> None \<or> k \<in> set objectPrototype"
  by (auto simp: getProp_def split: option.splits if_splits)

text \<open>
  What \<open>selectStreamsFromCatalog\<close> returns, for every catalog and selection: the entries
  of the kept streams in catalog order, each with the stream descriptor under \<open>stream\<close>,
  \<open>"overwrite"\<close> under \<open>destination_sync_mode\<close> and the fields of the directive elsewhere.
  A kept stream has an entry of its own in the selection, or a key that
  \<open>Object.prototype\<close> answers.
\<close>

lemma selectStreamsFromCatalog_kept:
  "selectStreamsFromCatalog cat sel =
     JObj [(''streams'',
            JArr (map (configuredStream sel)
                    (filter (\<lambda>s. truthy (getProp sel (streamKey s))) (streams cat))))]"
  by (simp add: selectStreamsFromCatalog_def)

lemma configuredStream_fields:
  "\<exists>fs. configuredStream sel s = JObj fs
      \<and> getProp fs ''stream'' = JObj s
      \<and> getProp fs ''destination_sync_mode'' = JStr ''overwrite''
      \<and> (\<forall>k. k \<noteq> ''stream'' \<and> k \<noteq> ''destination_sync_mode''
             \<longrightarrow> getProp fs k = getProp (spread (getProp sel (streamKey s))) k)"
  by (simp add: configuredStream_def getProp_update)

text \<open>A selection entry that is present but falsy never selects its stream.\<close>

lemma falsy_entry_drops:
  assumes "map_of sel (streamKey s) = Some v" and "\<not> truthy v"
  shows "s \<notin> set (filter (\<lambda>s. truthy (getProp sel (streamKey s))) (streams cat))"
  using assms by (simp add: getProp_own)

section \<open>Splitting and decoding\<close>

lemma split_nonempty: "split c s \<noteq> []"
  by (induction s) (auto split: list.splits)

lemma split_single: "length (split c s) = 1 \<Longrightarrow> split c s = [s]"
proof (induction s)
  case Nil
  then show ?case by simp
next
  case (Cons x xs)
  then show ?case
    using split_nonempty [of c xs]
    by (cases "split c xs") (auto split: if_splits)
qed

lemma split_pair:
  "length (split c s) = 2 \<Longrightarrow> s = (split c s ! 0) @ c # (split c s ! 1)"
proof (induction s)
  case Nil
  then show ?case by simp
next
  case (Cons x xs)
  show ?case
  proof (cases "x = c")
    case True
    with Cons.prems have "length (split c xs) = 1" by simp
    then have "split c xs = [xs]" by (rule split_single)
    with True show ?thesis by simp
  next
    case False
    with Cons show ?thesis
      using split_nonempty [of c xs]
      by (cases "split c xs") auto
  qed
qed

lemma split_no_sep: "x \<in> set (split c s) \<Longrightarrow> c \<notin> set x"
proof (induction s arbitrary: x)
  case Nil
  then show ?case by simp
next
  case (Cons y ys)
  then show ?case
    using split_nonempty [of c ys]
    by (cases "split c ys") (auto split: if_splits)
qed

lemma split_no_dot: "c \<notin> set s \<Longrightarrow> split c s = [s]"
  by (induction s) auto

lemma decodeStreamRow_one:
  "length (split CHR ''.'' (stream r)) = 1
   \<Longrightarrow> decodeStreamRow r = Inr (JObj [(''type'', JStr ''STREAM''),
                                                    (''stream'',
                                                     JObj [(''stream_descriptor'',
                                                            JObj [(''name'', JStr (stream r)), (''namespace'', JUndefined)]),
                                                           (''stream_state'', state r)])])"
  by (simp add: decodeStreamRow_def Let_def split_single)

lemma decodeStreamRow_two:
  assumes "length (split CHR ''.'' (stream r)) = 2"
  shows "\<exists>ns n. stream r = ns @ ''.'' @ n \<and> CHR ''.'' \<notin> set ns \<and> CHR ''.'' \<notin> set n
           \<and> decodeStreamRow r = Inr (JObj [(''type'', JStr ''STREAM''),
                                                 (''stream'',
                                                  JObj [(''stream_descriptor'',
                                                         JObj [(''name'', JStr n), (''namespace'', JStr ns)]),
                                                        (''stream_state'', state r)])])"
proof -
  let ?d = "split CHR ''.'' (stream r)"
  have "stream r = (?d ! 0) @ ''.'' @ (?d ! 1)"
    using split_pair [OF assms] by simp
  moreover have "?d ! 0 \<in> set ?d" "?d ! 1 \<in> set ?d" using assms by simp_all
  then have "CHR ''.'' \<notin> set (?d ! 0)" "CHR ''.'' \<notin> set (?d ! 1)"
    by (auto dest: split_no_sep)
  moreover have "decodeStreamRow r = Inr (JObj [(''type'', JStr ''STREAM''),
                                                (''stream'',
                                                 JObj [(''stream_descriptor'',
                                                        JObj [(''name'', JStr (?d ! 1)), (''namespace'', JStr (?d ! 0))]),
                                                       (''stream_state'', state r)])])"
    using assms by (simp add: decodeStreamRow_def Let_def)
  ultimately show ?thesis by blast
qed

lemma decodeStreamRow_other:
  "length (split CHR ''.'' (stream r)) \<noteq> 1 \<Longrightarrow> length (split CHR ''.'' (stream r)) \<noteq> 2
   \<Longrightarrow> decodeStreamRow r = Inl (Error (''Invalid stream name '' @ stream r))"
  by (simp add: decodeStreamRow_def Let_def)

lemma decodeStreamRow_throws:
  "decodeStreamRow r = Inl ex \<Longrightarrow> ex = Error (''Invalid stream name '' @ stream r)"
  by (auto simp: decodeStreamRow_def Let_def split: if_splits)

lemma mapThrowing_throws:
  "x \<in> set xs \<Longrightarrow> f x = Inl ex \<Longrightarrow> \<exists>y \<in> set xs. \<exists>ex'. f y = Inl ex' \<and> mapThrowing f xs = Inl ex'"
proof (induction xs)
  case Nil
  then show ?case by simp
next
  case (Cons a as)
  show ?case
  proof (cases "f a")
    case (Inl e)
    then show ?thesis by auto
  next
    case (Inr b)
    with Cons obtain y ex' where "y \<in> set as" "f y = Inl ex'" "mapThrowing f as = Inl ex'"
      by auto
    with Inr show ?thesis by auto
  qed
qed

lemma mapThrowing_Inl:
  "mapThrowing f xs = Inl ex \<Longrightarrow> \<exists>y \<in> set xs. f y = Inl ex"
  by (induction xs arbitrary: ex) (auto split: sum.splits)

lemma mapThrowing_Inr:
  "mapThrowing f xs = Inr ys \<Longrightarrow> length ys = length xs \<and> (\<forall>i < length xs. f (xs ! i) = Inr (ys ! i))"
proof (induction xs arbitrary: ys)
  case Nil
  then show ?case by simp
next
  case (Cons a as)
  then obtain b bs where "f a = Inr b" "mapThrowing f as = Inr bs" "ys = b # bs"
    by (auto split: sum.splits)
  with Cons.IH [of bs] show ?case by (auto simp: nth_Cons split: nat.splits)
qed

lemma sentinel_segments:
  "\<not> notSentinel r \<Longrightarrow> length (split CHR ''.'' (stream r)) = 1"
proof -
  assume "\<not> notSentinel r"
  then have "CHR ''.'' \<notin> set (stream r)" by (auto simp: notSentinel_def)
  then show ?thesis by (simp add: split_no_dot)
qed

lemma decodeState_multi:
  assumes "rows \<noteq> []" and "length rows \<noteq> 1 \<or> notSentinel (rows ! 0)"
  shows "decodeState rows =
           (case mapThrowing decodeStreamRow (filter notSentinel rows) of
              Inl e \<Rightarrow> Inl e | Inr entries \<Rightarrow> Inr (JArr entries))"
proof (cases rows)
  case Nil
  with assms show ?thesis by simp
next
  case (Cons r rs)
  with assms(2) show ?thesis
    by (cases rs) (simp_all add: decodeState_def notSentinel_def)
qed

lemma decodeState_invalid:
  assumes "bad \<in> set rows" and "length (split CHR ''.'' (stream bad)) \<noteq> 1"
    and "length (split CHR ''.'' (stream bad)) \<noteq> 2"
  shows "\<exists>r \<in> set rows. decodeState rows = Inl (Error (''Invalid stream name '' @ stream r))"
proof -
  have ns: "notSentinel bad"
  proof (rule ccontr)
    assume "\<not> notSentinel bad"
    then have "length (split CHR ''.'' (stream bad)) = 1" by (rule sentinel_segments)
    with assms(2) show False by simp
  qed
  have ne: "rows \<noteq> []" using assms(1) by auto
  have br: "length rows \<noteq> 1 \<or> notSentinel (rows ! 0)"
  proof (cases "length rows = 1")
    case True
    then obtain x where "rows = [x]" by (cases rows) auto
    with assms(1) have "rows ! 0 = bad" by simp
    with ns show ?thesis by simp
  next
    case False
    then show ?thesis by simp
  qed
  have eq: "decodeState rows =
           (case mapThrowing decodeStreamRow (filter notSentinel rows) of
              Inl e \<Rightarrow> Inl e | Inr entries \<Rightarrow> Inr (JArr entries))"
    using ne br by (rule decodeState_multi)
  have mem: "bad \<in> set (filter notSentinel rows)" using assms(1) ns by simp
  have thr: "decodeStreamRow bad = Inl (Error (''Invalid stream name '' @ stream bad))"
    using assms(2,3) by (rule decodeStreamRow_other)
  from mapThrowing_throws [where f = decodeStreamRow, OF mem thr]
  obtain y ex' where y: "y \<in> set (filter notSentinel rows)"
      "decodeStreamRow y = Inl ex'"
      "mapThrowing decodeStreamRow (filter notSentinel rows) = Inl ex'"
    by blast
  from y(2) have ex': "ex' = Error (''Invalid stream name '' @ stream y)"
    by (rule decodeStreamRow_throws)
  from y(1) have "y \<in> set rows" by simp
  moreover have "decodeState rows = Inl (Error (''Invalid stream name '' @ stream y))"
    using eq y(3) ex' by simp
  ultimately show ?thesis by blast
qed

section \<open>The paths of the handler\<close>

lemma handler_authorized:
  "authorize e q = None \<Longrightarrow> SYNCCTL_URL e = Some syncURL
   \<Longrightarrow> handler e q d = catchAll e q (tryBlock e syncURL q d)"
  by (simp add: handler_def)

lemma handler_past_checks:
  "passesChecks e q d syncURL sync srv \<Longrightarrow> loadState q d = (Inr stateObj, d', tr)
   \<Longrightarrow> handler e q d = catchAll e q (dispatch e syncURL q sync srv stateObj d' tr)"
  by (simp add: passesChecks_def handler_authorized tryBlock_def)

lemma handler_state_throws:
  "passesChecks e q d syncURL sync srv \<Longrightarrow> loadState q d = (Inl ex, d', tr)
   \<Longrightarrow> handler e q d = (Inr (caught e q ex), d', tr)"
  by (simp add: passesChecks_def handler_authorized tryBlock_def catchAll_def)

lemma loadState_full:
  "isFullSync q \<Longrightarrow>
   loadState q d = (Inr JUndefined, deleteManyState d (syncId q), [DeleteMany (syncId q)])"
  by (simp add: loadState_def)

lemma loadState_decode:
  "\<not> isFullSync q \<Longrightarrow> loadState q d = (decodeState (findManyState d (syncId q)), d, [])"
  by (simp add: loadState_def)

lemma loadState_trace:
  "loadState q d = (st, d', tr) \<Longrightarrow> Rpc rq \<notin> set tr"
  by (auto simp: loadState_def split: if_splits)

lemma dispatch_shape:
  "\<exists>out. dispatch e u q sync srv st d tr = (out, d, tr)
      \<or> (\<exists>creds cc. dispatch e u q sync srv st d tr
            = (out, d, tr @ [Rpc (readRequest e u q srv (randomUUID e) creds cc st)]))"
  by (auto simp: dispatch_def Let_def split: option.splits sum.splits)

lemma dispatch_issues:
  assumes "catalogFromDb d (package (config srv)) (version (config srv))
             (storageKey (link_data sync)) = Some cat"
    and "tryManageOauthCreds e (config srv) (fromId sync) = Inr creds"
  shows "\<exists>out. dispatch e u q sync srv st d tr =
           (out, d, tr @ [Rpc (readRequest e u q srv (randomUUID e) creds
                                (selectStreamsFromCatalog cat (selected (link_data sync))) st)])"
  using assms by (auto simp: dispatch_def Let_def split: sum.splits)

lemma dispatch_rpc_state:
  "dispatch e u q sync srv st d tr = (out, d', tr') \<Longrightarrow> Rpc rq \<in> set tr'
   \<Longrightarrow> Rpc rq \<in> set tr \<or> req_state rq = (if truthy st then Some st else None)"
  by (auto simp: dispatch_def Let_def readRequest_def split: option.splits sum.splits if_splits)

lemma catchAll_keeps:
  "\<exists>out'. catchAll e q (out, d, tr) = (out', d, tr)"
  by (cases out) (simp_all add: catchAll_def)

lemma handler_rpc_state:
  assumes "Rpc rq \<in> set (snd (snd (handler e q d)))"
  shows "\<exists>st d' tr. loadState q d = (Inr st, d', tr)
           \<and> req_state rq = (if truthy st then Some st else None)"
proof -
  obtain r d' tr where ls: "loadState q d = (r, d', tr)" by (cases "loadState q d") auto
  have no: "Rpc rq \<notin> set tr" using ls by (rule loadState_trace)
  show ?thesis
  proof (cases r)
    case (Inl ex)
    with assms ls no show ?thesis
      by (auto simp: handler_def tryBlock_def catchAll_def split: option.splits)
  next
    case (Inr st)
    have "req_state rq = (if truthy st then Some st else None)"
      if "Rpc rq \<in> set (snd (snd (catchAll e q (dispatch e u q sync srv st d' tr))))" for u sync srv
    proof -
      obtain out d'' tr' where dp: "dispatch e u q sync srv st d' tr = (out, d'', tr')"
        by (cases "dispatch e u q sync srv st d' tr") auto
      with that have "Rpc rq \<in> set tr'" by (auto simp: catchAll_def split: sum.splits)
      with dispatch_rpc_state [OF dp] no show ?thesis by blast
    qed
    with assms ls Inr show ?thesis
      by (auto simp: handler_def tryBlock_def split: option.splits simp: catchAll_def)
  qed
qed

lemma findManyState_deleteManyState:
  "findManyState (deleteManyState d sid) sid' = (if sid' = sid then [] else findManyState d sid')"
proof -
  have "filter (\<lambda>r. state_sync_id r \<noteq> sid \<and> state_sync_id r = sid') rows =
        (if sid' = sid then [] else filter (\<lambda>r. state_sync_id r = sid') rows)" for rows
    by (induction rows) auto
  from this [of "source_state_rows d"] show ?thesis
    by (auto simp: findManyState_def deleteManyState_def)
qed

lemma authorize_randomUUID: "authorize (e\<lparr>randomUUID := u\<rparr>) q = authorize e q"
  by (simp add: authorize_def Let_def split: option.splits)

lemma sample_authorized: "authorize sample_env q = None"
  by (simp add: authorize_def sample_env_def)

lemma sample_passes:
  "passesChecks sample_env (sample_query\<lparr>fullSync := f\<rparr>)
     (sample_db\<lparr>source_state_rows := rows\<rparr>) ''http://syncctl'' sample_link sample_service"
  by (simp add: passesChecks_def sample_authorized)
     (simp add: sample_defs syncWhere_def runningWhere_def)

section \<open>The claims\<close>

subsection \<open>Already running\<close>

text \<open>
  Claim C1, as amended. When the sync link is found and some task of the sync has status
  \<open>RUNNING\<close>, the handler answers \<open>{ok: false, error: "Sync is already running"}\<close> with
  \<open>runningTask\<close> carrying the task id of the first such task and its status and logs
  URLs. The tables are returned as they were and the trace of effects is empty: no
  \<open>deleteMany\<close> and no \<open>rpc\<close>, whatever \<open>fullSync\<close> says.
\<close>

theorem already_running_no_side_effects:
  assumes "authorize e q = None" and "SYNCCTL_URL e = Some syncURL"
    and "find (syncWhere q) (configurationObjectLink d) = Some sync"
    and "t \<in> set (source_task_rows d)" and "task_sync_id t = syncId q"
    and "task_status t = ''RUNNING''"
  shows "\<exists>running. find (runningWhere q) (source_task_rows d) = Some running
           \<and> running \<in> set (source_task_rows d)
           \<and> task_sync_id running = syncId q \<and> task_status running = ''RUNNING''
           \<and> handler e q d =
               (Inr \<lparr>ok = False, error = Some ''Sync is already running'', taskId = None,
                     status = None, logs = None,
                     runningTask =
                       Some \<lparr>rt_taskId = task_id running,
                             rt_status = tasksUrl e q (task_id running),
                             rt_logs = logsUrl e q (task_id running)\<rparr>\<rparr>,
                d, [])"
proof -
  have "runningWhere q t" using assms(5,6) by (simp add: runningWhere_def)
  then obtain running where r: "find (runningWhere q) (source_task_rows d) = Some running"
    using assms(4) by (cases "find (runningWhere q) (source_task_rows d)") (auto simp: find_None_iff)
  then have "runningWhere q running" and "running \<in> set (source_task_rows d)"
    by (auto simp: find_Some_iff)
  moreover have "handler e q d =
               (Inr \<lparr>ok = False, error = Some ''Sync is already running'', taskId = None,
                     status = None, logs = None,
                     runningTask =
                       Some \<lparr>rt_taskId = task_id running,
                             rt_status = tasksUrl e q (task_id running),
                             rt_logs = logsUrl e q (task_id running)\<rparr>\<rparr>,
                d, [])"
    using assms(1,2,3) r
    by (simp add: handler_authorized tryBlock_def catchAll_def failure_def)
  ultimately show ?thesis using r by (auto simp: runningWhere_def)
qed

text \<open>The sample sync with task \<open>t0\<close> running, asked for a full sync.\<close>

theorem already_running_no_side_effects_witness:
  "authorize sample_env (sample_query\<lparr>fullSync := Some ''true''\<rparr>) = None
   \<and> SYNCCTL_URL sample_env = Some ''http://syncctl''
   \<and> find (syncWhere (sample_query\<lparr>fullSync := Some ''true''\<rparr>))
        (configurationObjectLink (sample_db\<lparr>source_task_rows := [sample_running]\<rparr>))
        = Some sample_link
   \<and> sample_running \<in> set (source_task_rows (sample_db\<lparr>source_task_rows := [sample_running]\<rparr>))
   \<and> task_sync_id sample_running = syncId (sample_query\<lparr>fullSync := Some ''true''\<rparr>)
   \<and> task_status sample_running = ''RUNNING''
   \<and> handler sample_env (sample_query\<lparr>fullSync := Some ''true''\<rparr>)
        (sample_db\<lparr>source_task_rows := [sample_running]\<rparr>)
      = (Inr \<lparr>ok = False, error = Some ''Sync is already running'', taskId = None,
               status = None, logs = None,
               runningTask =
                 Some \<lparr>rt_taskId = ''t0'',
                       rt_status = ''https://app/api/w1/sources/tasks?taskId=t0&syncId=s1'',
                       rt_logs = ''https://app/api/w1/sources/logs?taskId=t0&syncId=s1''\<rparr>\<rparr>,
         sample_db\<lparr>source_task_rows := [sample_running]\<rparr>, [])"
proof -
  let ?q = "sample_query\<lparr>fullSync := Some ''true''\<rparr>"
  let ?d = "sample_db\<lparr>source_task_rows := [sample_running]\<rparr>"
  have h1: "authorize sample_env ?q = None" by (rule sample_authorized)
  have h2: "SYNCCTL_URL sample_env = Some ''http://syncctl''" by (simp add: sample_env_def)
  have h3: "find (syncWhere ?q) (configurationObjectLink ?d) = Some sample_link"
    by (simp add: sample_defs sample_running_def syncWhere_def)
  have h4: "sample_running \<in> set (source_task_rows ?d)" by simp
  have h5: "task_sync_id sample_running = syncId ?q" by (simp add: sample_defs sample_running_def)
  have h6: "task_status sample_running = ''RUNNING''" by (simp add: sample_defs sample_running_def)
  from already_running_no_side_effects [OF h1 h2 h3 h4 h5 h6]
  obtain running where r: "find (runningWhere ?q) (source_task_rows ?d) = Some running"
    and h: "handler sample_env ?q ?d =
               (Inr \<lparr>ok = False, error = Some ''Sync is already running'', taskId = None,
                     status = None, logs = None,
                     runningTask =
                       Some \<lparr>rt_taskId = task_id running,
                             rt_status = tasksUrl sample_env ?q (task_id running),
                             rt_logs = logsUrl sample_env ?q (task_id running)\<rparr>\<rparr>,
                ?d, [])"
    by blast
  from r have "running = sample_running"
    by (simp add: runningWhere_def sample_defs sample_running_def split: if_splits)
  with h have "handler sample_env ?q ?d
      = (Inr \<lparr>ok = False, error = Some ''Sync is already running'', taskId = None,
               status = None, logs = None,
               runningTask =
                 Some \<lparr>rt_taskId = ''t0'',
                       rt_status = ''https://app/api/w1/sources/tasks?taskId=t0&syncId=s1'',
                       rt_logs = ''https://app/api/w1/sources/logs?taskId=t0&syncId=s1''\<rparr>\<rparr>,
         ?d, [])"
    by (simp add: tasksUrl_def logsUrl_def sample_defs sample_running_def)
  with h1 h2 h3 h4 h5 h6 show ?thesis by blast
qed

text \<open>
  The error text of that answer is \<open>"Sync is already running"\<close>, not the
  \<open>"already running"\<close> of claim C1 as first stated.
\<close>

theorem already_running_error_text_counterexample:
  "fst (handler sample_env (sample_query\<lparr>fullSync := Some ''true''\<rparr>)
          (sample_db\<lparr>source_task_rows := [sample_running]\<rparr>))
     = Inr \<lparr>ok = False, error = Some ''Sync is already running'', taskId = None,
             status = None, logs = None,
             runningTask =
               Some \<lparr>rt_taskId = ''t0'',
                     rt_status = ''https://app/api/w1/sources/tasks?taskId=t0&syncId=s1'',
                     rt_logs = ''https://app/api/w1/sources/logs?taskId=t0&syncId=s1''\<rparr>\<rparr>
   \<and> Some ''Sync is already running'' \<noteq> Some ''already running''"
  by (simp add: run_defs sample_defs sample_running_def)

subsection \<open>Full sync\<close>

text \<open>
  Claim C2, as amended. A full sync (\<open>fullSync\<close> is \<open>"true"\<close> or \<open>"1"\<close>) that passes the
  link, running-task and service checks deletes the checkpoint rows of its sync, first of
  all effects: afterwards the sync has no checkpoint row, the rows of every other sync
  are as before, and the trace is the \<open>deleteMany\<close> alone or the \<open>deleteMany\<close> followed
  by one \<open>rpc\<close> whose body has no \<open>state\<close>.
\<close>

theorem full_sync_deletes_checkpoints:
  assumes "passesChecks e q d syncURL sync srv" and "isFullSync q"
  shows "\<exists>out d' tr. handler e q d = (out, d', tr)
           \<and> d' = deleteManyState d (syncId q)
           \<and> findManyState d' (syncId q) = []
           \<and> (\<forall>sid. sid \<noteq> syncId q \<longrightarrow> findManyState d' sid = findManyState d sid)
           \<and> (tr = [DeleteMany (syncId q)]
                \<or> (\<exists>rq. tr = [DeleteMany (syncId q), Rpc rq] \<and> req_state rq = None))"
proof -
  let ?d' = "deleteManyState d (syncId q)"
  let ?tr = "[DeleteMany (syncId q)]"
  have h: "handler e q d = catchAll e q (dispatch e syncURL q sync srv JUndefined ?d' ?tr)"
    using assms(1) loadState_full [OF assms(2)] by (rule handler_past_checks)
  obtain out where
    "dispatch e syncURL q sync srv JUndefined ?d' ?tr = (out, ?d', ?tr)
      \<or> (\<exists>creds cc. dispatch e syncURL q sync srv JUndefined ?d' ?tr
            = (out, ?d', ?tr @ [Rpc (readRequest e syncURL q srv (randomUUID e) creds cc JUndefined)]))"
    using dispatch_shape by blast
  then obtain tr where dp: "dispatch e syncURL q sync srv JUndefined ?d' ?tr = (out, ?d', tr)"
    and tr: "tr = ?tr \<or> (\<exists>rq. tr = [DeleteMany (syncId q), Rpc rq] \<and> req_state rq = None)"
    by (auto simp: readRequest_def)
  obtain out' where "catchAll e q (out, ?d', tr) = (out', ?d', tr)"
    using catchAll_keeps by blast
  with h dp have "handler e q d = (out', ?d', tr)" by simp
  with tr show ?thesis by (simp add: findManyState_deleteManyState)
qed

text \<open>The sample sync has two checkpoint rows; a full sync leaves the row of \<open>s2\<close>.\<close>

theorem full_sync_deletes_checkpoints_witness:
  "passesChecks sample_env (sample_query\<lparr>fullSync := Some ''true''\<rparr>)
     (sample_db\<lparr>source_state_rows := sample_rows\<rparr>) ''http://syncctl'' sample_link sample_service
   \<and> isFullSync (sample_query\<lparr>fullSync := Some ''true''\<rparr>)
   \<and> length (findManyState (sample_db\<lparr>source_state_rows := sample_rows\<rparr>) ''s1'') = 2
   \<and> (\<exists>out rq. handler sample_env (sample_query\<lparr>fullSync := Some ''true''\<rparr>)
                  (sample_db\<lparr>source_state_rows := sample_rows\<rparr>)
        = (out,
           sample_db\<lparr>source_state_rows :=
                       [\<lparr>state_sync_id = ''s2'', stream = ''_LEGACY_STATE'', state = JNum ''9''\<rparr>]\<rparr>,
           [DeleteMany ''s1'', Rpc rq])
        \<and> req_state rq = None)"
proof -
  let ?q = "sample_query\<lparr>fullSync := Some ''true''\<rparr>"
  let ?d = "sample_db\<lparr>source_state_rows := sample_rows\<rparr>"
  have h1: "passesChecks sample_env ?q ?d ''http://syncctl'' sample_link sample_service"
    by (rule sample_passes)
  have h2: "isFullSync ?q" by (simp add: isFullSync_def)
  have h3: "length (findManyState ?d ''s1'') = 2"
    by (simp add: findManyState_def sample_rows_def)
  have sid: "syncId ?q = ''s1''" by (simp add: sample_query_def)
  have del: "deleteManyState ?d ''s1'' =
      sample_db\<lparr>source_state_rows :=
                  [\<lparr>state_sync_id = ''s2'', stream = ''_LEGACY_STATE'', state = JNum ''9''\<rparr>]\<rparr>"
    by (simp add: deleteManyState_def sample_rows_def)
  have issued: "snd (snd (handler sample_env ?q ?d)) \<noteq> [DeleteMany ''s1'']"
    by (simp add: run_defs Let_def sample_defs)
  from full_sync_deletes_checkpoints [OF h1 h2] sid del issued
  have "\<exists>out rq. handler sample_env ?q ?d
        = (out,
           sample_db\<lparr>source_state_rows :=
                       [\<lparr>state_sync_id = ''s2'', stream = ''_LEGACY_STATE'', state = JNum ''9''\<rparr>]\<rparr>,
           [DeleteMany ''s1'', Rpc rq])
        \<and> req_state rq = None"
    by auto
  with h1 h2 h3 show ?thesis by blast
qed

text \<open>
  Claim C2 as first stated asks for the link and running-task checks only. A link whose
  service is missing passes both, and the handler answers "Service null not found"
  before the deletion: the two rows of the sync are still there.
\<close>

theorem full_sync_missing_service_counterexample:
  "find (syncWhere (sample_query\<lparr>fullSync := Some ''true''\<rparr>))
     (configurationObjectLink
        (sample_db\<lparr>configurationObjectLink := [sample_link\<lparr>link_from := None\<rparr>]\<rparr>))
     = Some (sample_link\<lparr>link_from := None\<rparr>)
   \<and> find (runningWhere (sample_query\<lparr>fullSync := Some ''true''\<rparr>))
       (source_task_rows
          (sample_db\<lparr>configurationObjectLink := [sample_link\<lparr>link_from := None\<rparr>]\<rparr>))
     = None
   \<and> isFullSync (sample_query\<lparr>fullSync := Some ''true''\<rparr>)
   \<and> handler sample_env (sample_query\<lparr>fullSync := Some ''true''\<rparr>)
        (sample_db\<lparr>configurationObjectLink := [sample_link\<lparr>link_from := None\<rparr>]\<rparr>)
     = (Inr \<lparr>ok = False, error = Some ''Service null not found'', taskId = None,
              status = None, logs = None, runningTask = None\<rparr>,
        sample_db\<lparr>configurationObjectLink := [sample_link\<lparr>link_from := None\<rparr>]\<rparr>, [])
   \<and> length (findManyState
               (sample_db\<lparr>configurationObjectLink := [sample_link\<lparr>link_from := None\<rparr>]\<rparr>)
               ''s1'') = 2"
  by (simp add: run_defs Let_def sample_defs)

subsection \<open>Stream keys\<close>

text \<open>
  Claim C3. In the multi-stream decode the stream key of a row is split on \<open>"."\<close>. One
  segment gives a \<open>STREAM\<close> entry with that name and an undefined namespace; two segments
  give the namespace and the name; any other number of segments throws "Invalid stream
  name". A single such row among the checkpoint rows makes the whole decode throw, and
  the handler then answers with the \<open>{ok: false, error}\<close> of the \<open>catch\<close> clause, with no
  task id, the tables untouched and nothing dispatched.
\<close>

theorem invalid_stream_key_aborts_load:
  "(length (split CHR ''.'' (stream r)) = 1 \<longrightarrow>
      decodeStreamRow r = Inr (JObj [(''type'', JStr ''STREAM''),
                                     (''stream'',
                                      JObj [(''stream_descriptor'',
                                             JObj [(''name'', JStr (stream r)), (''namespace'', JUndefined)]),
                                            (''stream_state'', state r)])]))
   \<and> (length (split CHR ''.'' (stream r)) = 2 \<longrightarrow>
        (\<exists>ns n. stream r = ns @ ''.'' @ n \<and> CHR ''.'' \<notin> set ns \<and> CHR ''.'' \<notin> set n
           \<and> decodeStreamRow r = Inr (JObj [(''type'', JStr ''STREAM''),
                                                 (''stream'',
                                                  JObj [(''stream_descriptor'',
                                                         JObj [(''name'', JStr n), (''namespace'', JStr ns)]),
                                                        (''stream_state'', state r)])])))
   \<and> (length (split CHR ''.'' (stream r)) \<notin> {1, 2} \<longrightarrow>
        decodeStreamRow r = Inl (Error (''Invalid stream name '' @ stream r)))
   \<and> (bad \<in> set rows \<and> length (split CHR ''.'' (stream bad)) \<notin> {1, 2} \<longrightarrow>
        (\<exists>r' \<in> set rows.
           decodeState rows = Inl (Error (''Invalid stream name '' @ stream r'))))
   \<and> (passesChecks e q d syncURL sync srv \<and> \<not> isFullSync q
        \<and> bad \<in> set (findManyState d (syncId q))
        \<and> length (split CHR ''.'' (stream bad)) \<notin> {1, 2} \<longrightarrow>
        (\<exists>r' \<in> set (findManyState d (syncId q)).
           handler e q d =
             (Inr \<lparr>ok = False,
                   error = Some (publicMessage e ''Error running sync''
                                   (Error (''Invalid stream name '' @ stream r')) False
                                   (''sync: '' @ syncId q @ '' workspace: '' @ workspaceId q)),
                   taskId = None, status = None, logs = None, runningTask = None\<rparr>,
              d, [])))"
proof -
  have a: "length (split CHR ''.'' (stream r)) = 1 \<longrightarrow>
      decodeStreamRow r = Inr (JObj [(''type'', JStr ''STREAM''),
                                     (''stream'',
                                      JObj [(''stream_descriptor'',
                                             JObj [(''name'', JStr (stream r)), (''namespace'', JUndefined)]),
                                            (''stream_state'', state r)])])"
    by (simp add: decodeStreamRow_one)
  have b: "length (split CHR ''.'' (stream r)) = 2 \<longrightarrow>
        (\<exists>ns n. stream r = ns @ ''.'' @ n \<and> CHR ''.'' \<notin> set ns \<and> CHR ''.'' \<notin> set n
           \<and> decodeStreamRow r = Inr (JObj [(''type'', JStr ''STREAM''),
                                                 (''stream'',
                                                  JObj [(''stream_descriptor'',
                                                         JObj [(''name'', JStr n), (''namespace'', JStr ns)]),
                                                        (''stream_state'', state r)])]))"
    using decodeStreamRow_two by blast
  have c: "length (split CHR ''.'' (stream r)) \<notin> {1, 2} \<longrightarrow>
        decodeStreamRow r = Inl (Error (''Invalid stream name '' @ stream r))"
    by (simp add: decodeStreamRow_other)
  have d: "\<exists>r' \<in> set rows'. decodeState rows' = Inl (Error (''Invalid stream name '' @ stream r'))"
    if "bad \<in> set rows'" "length (split CHR ''.'' (stream bad)) \<notin> {1, 2}" for rows'
    using that by (intro decodeState_invalid [of bad]) simp_all
  have e: "\<exists>r' \<in> set (findManyState d (syncId q)).
           handler e q d =
             (Inr \<lparr>ok = False,
                   error = Some (publicMessage e ''Error running sync''
                                   (Error (''Invalid stream name '' @ stream r')) False
                                   (''sync: '' @ syncId q @ '' workspace: '' @ workspaceId q)),
                   taskId = None, status = None, logs = None, runningTask = None\<rparr>,
              d, [])"
    if pc: "passesChecks e q d syncURL sync srv" and nf: "\<not> isFullSync q"
      and "bad \<in> set (findManyState d (syncId q))"
      and "length (split CHR ''.'' (stream bad)) \<notin> {1, 2}"
  proof -
    from d [OF that(3,4)] obtain r' where r': "r' \<in> set (findManyState d (syncId q))"
      "decodeState (findManyState d (syncId q)) = Inl (Error (''Invalid stream name '' @ stream r'))"
      by blast
    then have "loadState q d = (Inl (Error (''Invalid stream name '' @ stream r')), d, [])"
      using nf by (simp add: loadState_decode)
    with pc have "handler e q d =
        (Inr (caught e q (Error (''Invalid stream name '' @ stream r'))), d, [])"
      by (rule handler_state_throws)
    with r'(1) show ?thesis by (auto simp: caught_def syncError_def failure_def)
  qed
  from a b c d [of rows] e show ?thesis by blast
qed

text \<open>Rows \<open>customers\<close>, \<open>ns1.orders\<close> and \<open>a.b.c\<close>.\<close>

theorem invalid_stream_key_aborts_load_witness:
  "length (split CHR ''.'' ''customers'') = 1
   \<and> decodeStreamRow \<lparr>state_sync_id = ''s1'', stream = ''customers'', state = JNum ''7''\<rparr>
       = Inr (JObj [(''type'', JStr ''STREAM''),
                    (''stream'',
                     JObj [(''stream_descriptor'',
                            JObj [(''name'', JStr ''customers''), (''namespace'', JUndefined)]),
                           (''stream_state'', JNum ''7'')])])
   \<and> length (split CHR ''.'' ''ns1.orders'') = 2
   \<and> decodeStreamRow \<lparr>state_sync_id = ''s1'', stream = ''ns1.orders'', state = JNum ''5''\<rparr>
       = Inr (JObj [(''type'', JStr ''STREAM''),
                    (''stream'',
                     JObj [(''stream_descriptor'',
                            JObj [(''name'', JStr ''orders''), (''namespace'', JStr ''ns1'')]),
                           (''stream_state'', JNum ''5'')])])
   \<and> length (split CHR ''.'' ''a.b.c'') \<notin> {1, 2}
   \<and> decodeStreamRow \<lparr>state_sync_id = ''s1'', stream = ''a.b.c'', state = JNum ''1''\<rparr>
       = Inl (Error ''Invalid stream name a.b.c'')
   \<and> decodeState [\<lparr>state_sync_id = ''s1'', stream = ''customers'', state = JNum ''7''\<rparr>,
                   \<lparr>state_sync_id = ''s1'', stream = ''a.b.c'', state = JNum ''1''\<rparr>]
       = Inl (Error ''Invalid stream name a.b.c'')
   \<and> passesChecks sample_env (sample_query\<lparr>fullSync := None\<rparr>)
        (sample_db\<lparr>source_state_rows :=
           [\<lparr>state_sync_id = ''s1'', stream = ''customers'', state = JNum ''7''\<rparr>,
            \<lparr>state_sync_id = ''s1'', stream = ''a.b.c'', state = JNum ''1''\<rparr>]\<rparr>)
        ''http://syncctl'' sample_link sample_service
   \<and> \<not> isFullSync (sample_query\<lparr>fullSync := None\<rparr>)
   \<and> handler sample_env (sample_query\<lparr>fullSync := None\<rparr>)
        (sample_db\<lparr>source_state_rows :=
           [\<lparr>state_sync_id = ''s1'', stream = ''customers'', state = JNum ''7''\<rparr>,
            \<lparr>state_sync_id = ''s1'', stream = ''a.b.c'', state = JNum ''1''\<rparr>]\<rparr>)
       = (Inr \<lparr>ok = False, error = Some ''Error running sync'', taskId = None,
                status = None, logs = None, runningTask = None\<rparr>,
          sample_db\<lparr>source_state_rows :=
            [\<lparr>state_sync_id = ''s1'', stream = ''customers'', state = JNum ''7''\<rparr>,
             \<lparr>state_sync_id = ''s1'', stream = ''a.b.c'', state = JNum ''1''\<rparr>]\<rparr>, [])"
proof -
  let ?c = "\<lparr>state_sync_id = ''s1'', stream = ''customers'', state = JNum ''7''\<rparr>"
  let ?o = "\<lparr>state_sync_id = ''s1'', stream = ''ns1.orders'', state = JNum ''5''\<rparr>"
  let ?b = "\<lparr>state_sync_id = ''s1'', stream = ''a.b.c'', state = JNum ''1''\<rparr>"
  let ?q = "sample_query\<lparr>fullSync := None\<rparr>"
  let ?d = "sample_db\<lparr>source_state_rows := [?c, ?b]\<rparr>"
  have s1: "length (split CHR ''.'' ''customers'') = 1" by simp
  have s2: "length (split CHR ''.'' ''ns1.orders'') = 2" by simp
  have s3: "length (split CHR ''.'' ''a.b.c'') \<notin> {1, 2}" by simp
  have pc: "passesChecks sample_env ?q ?d ''http://syncctl'' sample_link sample_service"
    by (rule sample_passes)
  have nf: "\<not> isFullSync ?q" by (simp add: isFullSync_def)
  have rows: "findManyState ?d (syncId ?q) = [?c, ?b]"
    by (simp add: findManyState_def sample_query_def)
  have one: "decodeStreamRow ?c = Inr (JObj [(''type'', JStr ''STREAM''),
                                             (''stream'',
                                              JObj [(''stream_descriptor'',
                                                     JObj [(''name'', JStr ''customers''), (''namespace'', JUndefined)]),
                                                    (''stream_state'', JNum ''7'')])])"
    using invalid_stream_key_aborts_load [of ?c] s1 by simp
  have two: "decodeStreamRow ?o = Inr (JObj [(''type'', JStr ''STREAM''),
                                             (''stream'',
                                              JObj [(''stream_descriptor'',
                                                     JObj [(''name'', JStr ''orders''), (''namespace'', JStr ''ns1'')]),
                                                    (''stream_state'', JNum ''5'')])])"
    by (simp add: decodeStreamRow_def)
  have three: "decodeStreamRow ?b = Inl (Error ''Invalid stream name a.b.c'')"
    using invalid_stream_key_aborts_load [of ?b] s3 by simp
  have ld: "decodeState [?c, ?b] = Inl (Error ''Invalid stream name a.b.c'')"
    by (simp add: decodeState_def notSentinel_def one three)
  have "\<exists>r' \<in> set (findManyState ?d (syncId ?q)).
           handler sample_env ?q ?d =
             (Inr \<lparr>ok = False,
                   error = Some (publicMessage sample_env ''Error running sync''
                                   (Error (''Invalid stream name '' @ stream r')) False
                                   (''sync: '' @ syncId ?q @ '' workspace: '' @ workspaceId ?q)),
                   taskId = None, status = None, logs = None, runningTask = None\<rparr>,
              ?d, [])"
    using invalid_stream_key_aborts_load
            [of ?b ?b "[?c, ?b]" sample_env ?q ?d "''http://syncctl''" sample_link sample_service]
          pc nf rows s3
    by simp
  then have h: "handler sample_env ?q ?d =
       (Inr \<lparr>ok = False, error = Some ''Error running sync'', taskId = None,
                status = None, logs = None, runningTask = None\<rparr>, ?d, [])"
    by (auto simp: sample_env_def)
  from s1 one s2 two s3 three ld pc nf h show ?thesis by blast
qed

subsection \<open>Selecting streams\<close>

text \<open>
  Claim C4 has a catalog stream in the output only when the selection has an entry under
  its key. The filter reads \<open>selectedStreams[key]\<close>, and that read also answers for the
  names every object inherits. With the catalog \<open>[{name: "a"}, {name: "constructor"}]\<close>
  and the sample selection, which has an entry for \<open>a\<close> alone, the stream \<open>constructor\<close>
  is kept: its key has no entry in the selection, and its output entry holds no
  directive field, only \<open>destination_sync_mode\<close> and \<open>stream\<close>.
\<close>

theorem unselected_inherited_name_kept:
  "streamKey [(''name'', JStr ''constructor'')] = ''constructor''
   \<and> map_of sample_selection ''constructor'' = None
   \<and> selectStreamsFromCatalog
        \<lparr>streams = [[(''name'', JStr ''a'')], [(''name'', JStr ''constructor'')]]\<rparr>
        sample_selection
      = JObj [(''streams'',
               JArr [JObj [(''sync_mode'', JStr ''incremental''),
                           (''destination_sync_mode'', JStr ''overwrite''),
                           (''stream'', JObj [(''name'', JStr ''a'')])],
                     JObj [(''destination_sync_mode'', JStr ''overwrite''),
                           (''stream'', JObj [(''name'', JStr ''constructor'')])]])]"
  by (simp add: selectStreamsFromCatalog_def configuredStream_def streamKey_def getProp_def
        objectPrototype_def sample_selection_def)

subsection \<open>Sync not found\<close>

text \<open>
  Claim C5. When no link row has the requested id, the workspace id, \<open>deleted = false\<close>
  and type \<open>"sync"\<close> all at once, the handler returns (it does not throw)
  \<open>{ok: false, error: "Sync <id> not found"}\<close>, touches no table and dispatches nothing.
  Rows that match the id but are soft-deleted do not count.
\<close>

theorem missing_link_not_found:
  assumes "authorize e q = None" and "SYNCCTL_URL e = Some syncURL"
    and "\<forall>l \<in> set (configurationObjectLink d).
           \<not> (link_id l = syncId q \<and> link_workspaceId l = workspaceId q
              \<and> \<not> deleted l \<and> link_type l = ''sync'')"
  shows "handler e q d =
           (Inr \<lparr>ok = False, error = Some (''Sync '' @ syncId q @ '' not found''),
                 taskId = None, status = None, logs = None, runningTask = None\<rparr>,
            d, [])"
proof -
  have "find (syncWhere q) (configurationObjectLink d) = None"
    using assms(3) by (auto simp: find_None_iff syncWhere_def)
  then show ?thesis
    using assms(1,2) by (simp add: handler_authorized tryBlock_def catchAll_def failure_def)
qed

text \<open>The sample link, soft-deleted.\<close>

theorem missing_link_not_found_witness:
  "authorize sample_env sample_query = None
   \<and> SYNCCTL_URL sample_env = Some ''http://syncctl''
   \<and> configurationObjectLink
         (sample_db\<lparr>configurationObjectLink := [sample_link\<lparr>deleted := True\<rparr>]\<rparr>)
       = [sample_link\<lparr>deleted := True\<rparr>]
   \<and> deleted (sample_link\<lparr>deleted := True\<rparr>)
   \<and> link_id (sample_link\<lparr>deleted := True\<rparr>) = syncId sample_query
   \<and> handler sample_env sample_query
        (sample_db\<lparr>configurationObjectLink := [sample_link\<lparr>deleted := True\<rparr>]\<rparr>)
      = (Inr \<lparr>ok = False, error = Some ''Sync s1 not found'', taskId = None, status = None,
               logs = None, runningTask = None\<rparr>,
         sample_db\<lparr>configurationObjectLink := [sample_link\<lparr>deleted := True\<rparr>]\<rparr>, [])"
proof -
  let ?d = "sample_db\<lparr>configurationObjectLink := [sample_link\<lparr>deleted := True\<rparr>]\<rparr>"
  have h1: "authorize sample_env sample_query = None" by (rule sample_authorized)
  have h2: "SYNCCTL_URL sample_env = Some ''http://syncctl''" by (simp add: sample_env_def)
  have h3: "\<forall>l \<in> set (configurationObjectLink ?d).
           \<not> (link_id l = syncId sample_query \<and> link_workspaceId l = workspaceId sample_query
              \<and> \<not> deleted l \<and> link_type l = ''sync'')"
    by simp
  have h4: "link_id (sample_link\<lparr>deleted := True\<rparr>) = syncId sample_query"
    by (simp add: sample_defs)
  from missing_link_not_found [OF h1 h2 h3]
  have "handler sample_env sample_query ?d
      = (Inr \<lparr>ok = False, error = Some ''Sync s1 not found'', taskId = None, status = None,
               logs = None, runningTask = None\<rparr>, ?d, [])"
    by (simp add: sample_query_def)
  with h1 h2 h4 show ?thesis by simp
qed

subsection \<open>Legacy, global and absent state\<close>

text \<open>
  Claim C6. Outside a full sync, a sync whose only checkpoint row is \<open>_LEGACY_STATE\<close>
  loads that row's blob as it is; one whose only row is \<open>_GLOBAL_STATE\<close> loads the
  one-element list \<open>[{type: "GLOBAL", global: blob}]\<close>; one without rows loads
  \<open>undefined\<close>, and every \<open>rpc\<close> the handler then issues has a body without \<open>state\<close>.
\<close>

theorem checkpoint_decode_roundtrip:
  "(\<not> isFullSync q \<and> findManyState d (syncId q) = [r] \<and> stream r = ''_LEGACY_STATE'' \<longrightarrow>
      loadState q d = (Inr (state r), d, []))
   \<and> (\<not> isFullSync q \<and> findManyState d (syncId q) = [r] \<and> stream r = ''_GLOBAL_STATE'' \<longrightarrow>
        loadState q d =
          (Inr (JArr [JObj [(''type'', JStr ''GLOBAL''), (''global'', state r)]]), d, []))
   \<and> (\<not> isFullSync q \<and> findManyState d (syncId q) = [] \<longrightarrow>
        loadState q d = (Inr JUndefined, d, [])
        \<and> (\<forall>rq. Rpc rq \<in> set (snd (snd (handler e q d))) \<longrightarrow> req_state rq = None))"
proof -
  have a: "loadState q d = (Inr (state r), d, [])"
    if "\<not> isFullSync q" "findManyState d (syncId q) = [r]" "stream r = ''_LEGACY_STATE''"
    using that by (simp add: loadState_decode decodeState_def)
  have b: "loadState q d =
          (Inr (JArr [JObj [(''type'', JStr ''GLOBAL''), (''global'', state r)]]), d, [])"
    if "\<not> isFullSync q" "findManyState d (syncId q) = [r]" "stream r = ''_GLOBAL_STATE''"
    using that by (simp add: loadState_decode decodeState_def)
  have c: "loadState q d = (Inr JUndefined, d, [])"
    if "\<not> isFullSync q" "findManyState d (syncId q) = []"
    using that by (simp add: loadState_decode decodeState_def)
  have c': "req_state rq = None"
    if "\<not> isFullSync q" "findManyState d (syncId q) = []"
       "Rpc rq \<in> set (snd (snd (handler e q d)))" for rq
    using handler_rpc_state [OF that(3)] c [OF that(1,2)] by auto
  from a b c c' show ?thesis by blast
qed

text \<open>
  The sample sync with a legacy row, with a global row, and with no row; in the last
  case the handler issues one \<open>rpc\<close>, without \<open>state\<close>.
\<close>

theorem checkpoint_decode_roundtrip_witness:
  "\<not> isFullSync sample_query
   \<and> findManyState
        (sample_db\<lparr>source_state_rows :=
           [\<lparr>state_sync_id = ''s1'', stream = ''_LEGACY_STATE'',
             state = JObj [(''cursor'', JNum ''3'')]\<rparr>]\<rparr>) (syncId sample_query)
       = [\<lparr>state_sync_id = ''s1'', stream = ''_LEGACY_STATE'',
           state = JObj [(''cursor'', JNum ''3'')]\<rparr>]
   \<and> fst (loadState sample_query
        (sample_db\<lparr>source_state_rows :=
           [\<lparr>state_sync_id = ''s1'', stream = ''_LEGACY_STATE'',
             state = JObj [(''cursor'', JNum ''3'')]\<rparr>]\<rparr>))
       = Inr (JObj [(''cursor'', JNum ''3'')])
   \<and> findManyState
        (sample_db\<lparr>source_state_rows :=
           [\<lparr>state_sync_id = ''s1'', stream = ''_GLOBAL_STATE'',
             state = JObj [(''cursor'', JNum ''3'')]\<rparr>]\<rparr>) (syncId sample_query)
       = [\<lparr>state_sync_id = ''s1'', stream = ''_GLOBAL_STATE'',
           state = JObj [(''cursor'', JNum ''3'')]\<rparr>]
   \<and> fst (loadState sample_query
        (sample_db\<lparr>source_state_rows :=
           [\<lparr>state_sync_id = ''s1'', stream = ''_GLOBAL_STATE'',
             state = JObj [(''cursor'', JNum ''3'')]\<rparr>]\<rparr>))
       = Inr (JArr [JObj [(''type'', JStr ''GLOBAL''),
                          (''global'', JObj [(''cursor'', JNum ''3'')])]])
   \<and> findManyState (sample_db\<lparr>source_state_rows := []\<rparr>) (syncId sample_query) = []
   \<and> fst (loadState sample_query (sample_db\<lparr>source_state_rows := []\<rparr>)) = Inr JUndefined
   \<and> (\<exists>rq. snd (snd (handler sample_env sample_query (sample_db\<lparr>source_state_rows := []\<rparr>)))
              = [Rpc rq] \<and> req_state rq = None)"
proof -
  let ?l = "\<lparr>state_sync_id = ''s1'', stream = ''_LEGACY_STATE'', state = JObj [(''cursor'', JNum ''3'')]\<rparr>"
  let ?g = "\<lparr>state_sync_id = ''s1'', stream = ''_GLOBAL_STATE'', state = JObj [(''cursor'', JNum ''3'')]\<rparr>"
  let ?dl = "sample_db\<lparr>source_state_rows := [?l]\<rparr>"
  let ?dg = "sample_db\<lparr>source_state_rows := [?g]\<rparr>"
  let ?dn = "sample_db\<lparr>source_state_rows := []\<rparr>"
  have nf: "\<not> isFullSync sample_query" by (simp add: isFullSync_def sample_query_def)
  have rl: "findManyState ?dl (syncId sample_query) = [?l]"
    by (simp add: findManyState_def sample_query_def)
  have rg: "findManyState ?dg (syncId sample_query) = [?g]"
    by (simp add: findManyState_def sample_query_def)
  have rn: "findManyState ?dn (syncId sample_query) = []"
    by (simp add: findManyState_def)
  have a: "fst (loadState sample_query ?dl) = Inr (JObj [(''cursor'', JNum ''3'')])"
    using checkpoint_decode_roundtrip [of sample_query ?dl ?l] nf rl by simp
  have b: "fst (loadState sample_query ?dg)
       = Inr (JArr [JObj [(''type'', JStr ''GLOBAL''), (''global'', JObj [(''cursor'', JNum ''3'')])]])"
    using checkpoint_decode_roundtrip [of sample_query ?dg ?g] nf rg by simp
  have c: "fst (loadState sample_query ?dn) = Inr JUndefined"
    and c': "\<forall>rq. Rpc rq \<in> set (snd (snd (handler sample_env sample_query ?dn)))
                 \<longrightarrow> req_state rq = None"
    using checkpoint_decode_roundtrip [of sample_query ?dn _ sample_env] nf rn by simp_all
  obtain rq where tr: "snd (snd (handler sample_env sample_query ?dn)) = [Rpc rq]"
    by (simp add: run_defs Let_def sample_defs decodeState_def)
  with c' have "req_state rq = None" by simp
  with tr have "\<exists>rq. snd (snd (handler sample_env sample_query ?dn)) = [Rpc rq]
                   \<and> req_state rq = None"
    by blast
  with nf rl a rg b rn c show ?thesis by blast
qed

subsection \<open>Dispatch failure\<close>

text \<open>
  Claim C7. When the call gets as far as the \<open>rpc\<close> and the execution service answers
  with a falsy \<open>ok\<close>, the handler returns \<open>{ok: false, error, taskId}\<close>: the error is the
  service's (\<open>"unknown error"\<close> when it gave none) and the task id is the one generated
  for the request.
\<close>

theorem dispatch_failure_keeps_taskId:
  assumes "passesChecks e q d syncURL sync srv"
    and "loadState q d = (Inr stateObj, d', tr)"
    and "catalogFromDb d' (package (config srv)) (version (config srv))
           (storageKey (link_data sync)) = Some cat"
    and "tryManageOauthCreds e (config srv) (fromId sync) = Inr creds"
    and "rq = readRequest e syncURL q srv (randomUUID e) creds
                (selectStreamsFromCatalog cat (selected (link_data sync))) stateObj"
    and "rpc e rq = Inr res" and "\<not> res_ok res"
  shows "handler e q d =
           (Inr \<lparr>ok = False,
                 error = Some (case res_error res of None \<Rightarrow> ''unknown error'' | Some m \<Rightarrow> m),
                 taskId = Some (randomUUID e), status = None, logs = None,
                 runningTask = None\<rparr>,
            d', tr @ [Rpc rq])"
proof -
  have "handler e q d = catchAll e q (dispatch e syncURL q sync srv stateObj d' tr)"
    using assms(1,2) by (rule handler_past_checks)
  moreover have "dispatch e syncURL q sync srv stateObj d' tr =
      (Inr ((failure (case res_error res of None \<Rightarrow> ''unknown error'' | Some m \<Rightarrow> m))
              \<lparr>taskId := Some (randomUUID e)\<rparr>), d', tr @ [Rpc rq])"
    using assms(3-7) by (simp add: dispatch_def Let_def)
  ultimately show ?thesis by (simp add: catchAll_def failure_def)
qed

text \<open>The service answers \<open>{ok: false, error: "boom"}\<close>.\<close>

theorem dispatch_failure_keeps_taskId_witness:
  "passesChecks sample_env_boom
     sample_query sample_db ''http://syncctl'' sample_link sample_service
   \<and> fst (handler sample_env_boom
            sample_query sample_db)
      = Inr \<lparr>ok = False, error = Some ''boom'', taskId = Some ''uuid-1'', status = None,
              logs = None, runningTask = None\<rparr>"
proof -
  let ?e = "sample_env_boom"
  let ?st = "JArr [(JObj [(''type'', JStr ''STREAM''),
                          (''stream'',
                           JObj [(''stream_descriptor'',
                                  JObj [(''name'', JStr ''orders''), (''namespace'', JStr ''ns1'')]),
                                 (''stream_state'', JNum ''5'')])]),
                   (JObj [(''type'', JStr ''STREAM''),
                          (''stream'',
                           JObj [(''stream_descriptor'',
                                  JObj [(''name'', JStr ''customers''), (''namespace'', JUndefined)]),
                                 (''stream_state'', JNum ''7'')])])]"
  let ?creds = "JObj [(''id'', JStr ''svc1'')]"
  let ?rq = "readRequest ?e ''http://syncctl'' sample_query sample_service (randomUUID ?e) ?creds
               (selectStreamsFromCatalog sample_catalog (selected (link_data sample_link))) ?st"
  let ?res = "\<lparr>res_ok = False, res_error = Some ''boom''\<rparr>"
  have h1: "passesChecks ?e sample_query sample_db ''http://syncctl'' sample_link sample_service"
    using sample_passes [of None sample_rows]
    by (simp add: passesChecks_def authorize_def sample_defs sample_env_boom_def)
  have h2: "loadState sample_query sample_db = (Inr ?st, sample_db, [])"
    by (simp add: loadState_def isFullSync_def findManyState_def decodeState_def
          decodeStreamRow_def notSentinel_def sample_defs sample_env_boom_def)
  have h3: "catalogFromDb sample_db (package (config sample_service))
              (version (config sample_service)) (storageKey (link_data sample_link))
            = Some sample_catalog"
    by (simp add: catalogFromDb_def sample_defs sample_env_boom_def)
  have h4: "tryManageOauthCreds ?e (config sample_service) (fromId sample_link) = Inr ?creds"
    by (simp add: sample_defs sample_env_boom_def)
  have h5: "rpc ?e ?rq = Inr ?res" by (simp add: sample_env_boom_def)
  have h6: "\<not> res_ok ?res" by simp
  from dispatch_failure_keeps_taskId [OF h1 h2 h3 h4 refl h5 h6]
  have "fst (handler ?e sample_query sample_db)
      = Inr \<lparr>ok = False, error = Some ''boom'', taskId = Some ''uuid-1'', status = None,
              logs = None, runningTask = None\<rparr>"
    by (simp add: sample_env_def sample_env_boom_def)
  with h1 show ?thesis by blast
qed

subsection \<open>Credential failure\<close>

text \<open>
  Claim C8, as amended. When \<open>tryManageOauthCreds\<close> throws, the exception reaches the
  \<open>catch\<close> clause: the handler returns its \<open>{ok: false, error}\<close> without a task id, no
  \<open>rpc\<close> is issued (so no credentials, stale or fresh, are sent), and the whole outcome is
  the same whatever UUID was generated.
\<close>

theorem credential_failure_generic_error:
  assumes "passesChecks e q d syncURL sync srv"
    and "loadState q d = (Inr stateObj, d', tr)"
    and "catalogFromDb d' (package (config srv)) (version (config srv))
           (storageKey (link_data sync)) = Some cat"
    and "tryManageOauthCreds e (config srv) (fromId sync) = Inl ex"
  shows "handler e q d =
           (Inr \<lparr>ok = False, error = Some (publicMessage e ''Error running sync'' ex False
                                 (''sync: '' @ syncId q @ '' workspace: '' @ workspaceId q)),
                 taskId = None, status = None, logs = None, runningTask = None\<rparr>,
            d', tr)
       \<and> (\<forall>rq. Rpc rq \<notin> set tr)
       \<and> (\<forall>u. handler (e\<lparr>randomUUID := u\<rparr>) q d = handler e q d)"
proof -
  have d: "dispatch e' syncURL q sync srv stateObj d' tr = (Inl ex, d', tr)"
    if "tryManageOauthCreds e' = tryManageOauthCreds e" for e'
    using assms(3,4) that by (simp add: dispatch_def Let_def)
  have h: "handler e q d = catchAll e q (dispatch e syncURL q sync srv stateObj d' tr)"
    using assms(1,2) by (rule handler_past_checks)
  have a: "handler e q d =
           (Inr \<lparr>ok = False, error = Some (publicMessage e ''Error running sync'' ex False
                                 (''sync: '' @ syncId q @ '' workspace: '' @ workspaceId q)),
                 taskId = None, status = None, logs = None, runningTask = None\<rparr>,
            d', tr)"
    using h d [of e] by (simp add: catchAll_def caught_def syncError_def failure_def)
  have b: "\<forall>rq. Rpc rq \<notin> set tr"
    using assms(2) loadState_trace by blast
  have c: "handler (e\<lparr>randomUUID := u\<rparr>) q d = handler e q d" for u
  proof -
    have "passesChecks (e\<lparr>randomUUID := u\<rparr>) q d syncURL sync srv"
      using assms(1) by (simp add: passesChecks_def authorize_randomUUID)
    then have "handler (e\<lparr>randomUUID := u\<rparr>) q d
        = catchAll (e\<lparr>randomUUID := u\<rparr>) q
            (dispatch (e\<lparr>randomUUID := u\<rparr>) syncURL q sync srv stateObj d' tr)"
      using assms(2) by (rule handler_past_checks)
    with a d [of "e\<lparr>randomUUID := u\<rparr>"] show ?thesis
      by (simp add: catchAll_def caught_def syncError_def failure_def)
  qed
  from a b c show ?thesis by blast
qed

text \<open>The token refresh fails for the sample sync.\<close>

theorem credential_failure_generic_error_witness:
  "passesChecks sample_env_refresh_fails
     sample_query sample_db ''http://syncctl'' sample_link sample_service
   \<and> handler sample_env_refresh_fails
        sample_query sample_db
      = (Inr \<lparr>ok = False, error = Some ''Error running sync'', taskId = None, status = None,
               logs = None, runningTask = None\<rparr>,
         sample_db, [])"
proof -
  let ?e = "sample_env_refresh_fails"
  let ?st = "JArr [(JObj [(''type'', JStr ''STREAM''),
                          (''stream'',
                           JObj [(''stream_descriptor'',
                                  JObj [(''name'', JStr ''orders''), (''namespace'', JStr ''ns1'')]),
                                 (''stream_state'', JNum ''5'')])]),
                   (JObj [(''type'', JStr ''STREAM''),
                          (''stream'',
                           JObj [(''stream_descriptor'',
                                  JObj [(''name'', JStr ''customers''), (''namespace'', JUndefined)]),
                                 (''stream_state'', JNum ''7'')])])]"
  have h1: "passesChecks ?e sample_query sample_db ''http://syncctl'' sample_link sample_service"
    using sample_passes [of None sample_rows]
    by (simp add: passesChecks_def authorize_def sample_defs sample_env_refresh_fails_def)
  have h2: "loadState sample_query sample_db = (Inr ?st, sample_db, [])"
    by (simp add: loadState_def isFullSync_def findManyState_def decodeState_def
          decodeStreamRow_def notSentinel_def sample_defs sample_env_refresh_fails_def)
  have h3: "catalogFromDb sample_db (package (config sample_service))
              (version (config sample_service)) (storageKey (link_data sample_link))
            = Some sample_catalog"
    by (simp add: catalogFromDb_def sample_defs sample_env_refresh_fails_def)
  have h4: "tryManageOauthCreds ?e (config sample_service) (fromId sample_link)
            = Inl (Error ''token refresh failed'')"
    by (simp add: sample_env_refresh_fails_def)
  from credential_failure_generic_error [OF h1 h2 h3 h4]
  have "handler ?e sample_query sample_db
      = (Inr \<lparr>ok = False, error = Some ''Error running sync'', taskId = None, status = None,
               logs = None, runningTask = None\<rparr>,
         sample_db, [])"
    by (simp add: sample_env_def sample_env_refresh_fails_def)
  with h1 show ?thesis by blast
qed

text \<open>
  Claim C8 as first stated has the generated task id attached to that answer. The UUID
  generated was \<open>uuid-1\<close>; the answer has no task id.
\<close>

theorem credential_failure_taskId_counterexample:
  "tryManageOauthCreds
     sample_env_refresh_fails
     (config sample_service) (fromId sample_link) = Inl (Error ''token refresh failed'')
   \<and> randomUUID sample_env_refresh_fails
       = ''uuid-1''
   \<and> fst (handler sample_env_refresh_fails
            sample_query sample_db)
      = Inr \<lparr>ok = False, error = Some ''Error running sync'', taskId = None, status = None,
              logs = None, runningTask = None\<rparr>
   \<and> (None :: string option) \<noteq> Some ''uuid-1''"
  by (simp add: run_defs Let_def sample_defs sample_env_refresh_fails_def decodeState_def decodeStreamRow_def notSentinel_def)

subsection \<open>Sentinel rows among stream rows\<close>

text \<open>
  Claim C9. When there are several checkpoint rows, or one that is no sentinel, the
  decode maps \<open>decodeStreamRow\<close> over the rows that are neither \<open>_LEGACY_STATE\<close> nor
  \<open>_GLOBAL_STATE\<close>: a failure comes from a non-sentinel row, and a success has one entry
  per non-sentinel row. When there are several rows and all are sentinels the decoded
  state is the empty list, and the \<open>rpc\<close> the handler issues carries it as \<open>state\<close>.
\<close>

theorem sentinel_rows_filtered:
  "(rows \<noteq> [] \<and> (length rows \<noteq> 1 \<or> notSentinel (rows ! 0)) \<longrightarrow>
      decodeState rows =
        (case mapThrowing decodeStreamRow (filter notSentinel rows) of
           Inl ex \<Rightarrow> Inl ex | Inr entries \<Rightarrow> Inr (JArr entries))
      \<and> (\<forall>ex. decodeState rows = Inl ex \<longrightarrow>
            (\<exists>x \<in> set rows. notSentinel x \<and> decodeStreamRow x = Inl ex))
      \<and> (\<forall>v. decodeState rows = Inr v \<longrightarrow>
            (\<exists>entries. v = JArr entries
               \<and> length entries = length (filter notSentinel rows)
               \<and> (\<forall>i < length entries.
                     decodeStreamRow (filter notSentinel rows ! i) = Inr (entries ! i)))))
   \<and> (length rows > 1 \<and> (\<forall>x \<in> set rows. \<not> notSentinel x) \<longrightarrow>
        decodeState rows = Inr (JArr []))
   \<and> (passesChecks e q d syncURL sync srv \<and> \<not> isFullSync q
        \<and> length (findManyState d (syncId q)) > 1
        \<and> (\<forall>x \<in> set (findManyState d (syncId q)). \<not> notSentinel x)
        \<and> catalogFromDb d (package (config srv)) (version (config srv))
             (storageKey (link_data sync)) = Some cat
        \<and> tryManageOauthCreds e (config srv) (fromId sync) = Inr creds \<longrightarrow>
        (\<exists>rq. snd (snd (handler e q d)) = [Rpc rq] \<and> req_state rq = Some (JArr [])))"
proof -
  let ?ns = "filter notSentinel rows"
  have a: "decodeState rows' =
        (case mapThrowing decodeStreamRow (filter notSentinel rows') of
           Inl ex \<Rightarrow> Inl ex | Inr entries \<Rightarrow> Inr (JArr entries))"
    if "rows' \<noteq> []" "length rows' \<noteq> 1 \<or> notSentinel (rows' ! 0)" for rows'
    using that by (rule decodeState_multi)
  have b: "\<exists>x \<in> set rows. notSentinel x \<and> decodeStreamRow x = Inl ex"
    if "rows \<noteq> []" "length rows \<noteq> 1 \<or> notSentinel (rows ! 0)" "decodeState rows = Inl ex" for ex
  proof -
    from a [OF that(1,2)] that(3) have "mapThrowing decodeStreamRow ?ns = Inl ex"
      by (simp split: sum.splits)
    then obtain y where "y \<in> set ?ns" "decodeStreamRow y = Inl ex"
      using mapThrowing_Inl by blast
    then show ?thesis by auto
  qed
  have c: "\<exists>entries. v = JArr entries \<and> length entries = length ?ns
               \<and> (\<forall>i < length entries. decodeStreamRow (?ns ! i) = Inr (entries ! i))"
    if "rows \<noteq> []" "length rows \<noteq> 1 \<or> notSentinel (rows ! 0)" "decodeState rows = Inr v" for v
  proof -
    from a [OF that(1,2)] that(3) obtain entries where
      "mapThrowing decodeStreamRow ?ns = Inr entries" "v = JArr entries"
      by (auto split: sum.splits)
    with mapThrowing_Inr [of decodeStreamRow ?ns entries] show ?thesis by auto
  qed
  have d: "decodeState rows' = Inr (JArr [])"
    if "length rows' > 1" "\<forall>x \<in> set rows'. \<not> notSentinel x" for rows'
  proof -
    have "filter notSentinel rows' = []" using that(2) by (simp add: filter_empty_conv)
    moreover have "rows' \<noteq> []" "length rows' \<noteq> 1 \<or> notSentinel (rows' ! 0)"
      using that(1) by auto
    ultimately show ?thesis using a [of rows'] by simp
  qed
  have e: "\<exists>rq. snd (snd (handler e q d)) = [Rpc rq] \<and> req_state rq = Some (JArr [])"
    if pc: "passesChecks e q d syncURL sync srv" and nf: "\<not> isFullSync q"
      and "length (findManyState d (syncId q)) > 1"
      and "\<forall>x \<in> set (findManyState d (syncId q)). \<not> notSentinel x"
      and cat: "catalogFromDb d (package (config srv)) (version (config srv))
             (storageKey (link_data sync)) = Some cat"
      and cr: "tryManageOauthCreds e (config srv) (fromId sync) = Inr creds"
  proof -
    have "loadState q d = (Inr (JArr []), d, [])"
      using nf d [OF that(3,4)] by (simp add: loadState_decode)
    with pc have h: "handler e q d = catchAll e q (dispatch e syncURL q sync srv (JArr []) d [])"
      by (rule handler_past_checks)
    let ?rq = "readRequest e syncURL q srv (randomUUID e) creds
                 (selectStreamsFromCatalog cat (selected (link_data sync))) (JArr [])"
    from dispatch_issues [OF cat cr] obtain out where
      "dispatch e syncURL q sync srv (JArr []) d [] = (out, d, [] @ [Rpc ?rq])"
      by blast
    moreover obtain out' where "catchAll e q (out, d, [Rpc ?rq]) = (out', d, [Rpc ?rq])"
      using catchAll_keeps by blast
    ultimately have "snd (snd (handler e q d)) = [Rpc ?rq]" using h by simp
    moreover have "req_state ?rq = Some (JArr [])" by (simp add: readRequest_def)
    ultimately show ?thesis by blast
  qed
  from a [of rows] b c d [of rows] e show ?thesis by blast
qed

text \<open>A legacy row beside \<open>customers\<close>, and a legacy row beside a global row.\<close>

theorem sentinel_rows_filtered_witness:
  "decodeState [\<lparr>state_sync_id = ''s1'', stream = ''_LEGACY_STATE'', state = JNum ''1''\<rparr>,
                \<lparr>state_sync_id = ''s1'', stream = ''customers'', state = JNum ''7''\<rparr>]
     = Inr (JArr [(JObj [(''type'', JStr ''STREAM''),
                         (''stream'',
                          JObj [(''stream_descriptor'',
                                 JObj [(''name'', JStr ''customers''), (''namespace'', JUndefined)]),
                                (''stream_state'', JNum ''7'')])])])
   \<and> decodeState [\<lparr>state_sync_id = ''s1'', stream = ''_LEGACY_STATE'', state = JNum ''1''\<rparr>,
                  \<lparr>state_sync_id = ''s1'', stream = ''_GLOBAL_STATE'', state = JNum ''2''\<rparr>]
     = Inr (JArr [])
   \<and> passesChecks sample_env (sample_query\<lparr>fullSync := None\<rparr>)
        (sample_db\<lparr>source_state_rows :=
           [\<lparr>state_sync_id = ''s1'', stream = ''_LEGACY_STATE'', state = JNum ''1''\<rparr>,
            \<lparr>state_sync_id = ''s1'', stream = ''_GLOBAL_STATE'', state = JNum ''2''\<rparr>]\<rparr>)
        ''http://syncctl'' sample_link sample_service
   \<and> (\<exists>rq. snd (snd (handler sample_env (sample_query\<lparr>fullSync := None\<rparr>)
        (sample_db\<lparr>source_state_rows :=
           [\<lparr>state_sync_id = ''s1'', stream = ''_LEGACY_STATE'', state = JNum ''1''\<rparr>,
            \<lparr>state_sync_id = ''s1'', stream = ''_GLOBAL_STATE'', state = JNum ''2''\<rparr>]\<rparr>)))
          = [Rpc rq] \<and> req_state rq = Some (JArr []))"
proof -
  let ?l = "\<lparr>state_sync_id = ''s1'', stream = ''_LEGACY_STATE'', state = JNum ''1''\<rparr>"
  let ?g = "\<lparr>state_sync_id = ''s1'', stream = ''_GLOBAL_STATE'', state = JNum ''2''\<rparr>"
  let ?c = "\<lparr>state_sync_id = ''s1'', stream = ''customers'', state = JNum ''7''\<rparr>"
  let ?q = "sample_query\<lparr>fullSync := None\<rparr>"
  let ?d = "sample_db\<lparr>source_state_rows := [?l, ?g]\<rparr>"
  have f1: "filter notSentinel [?l, ?c] = [?c]" by (simp add: notSentinel_def)
  have dc: "decodeStreamRow ?c = Inr (JObj [(''type'', JStr ''STREAM''),
                                            (''stream'',
                                             JObj [(''stream_descriptor'',
                                                    JObj [(''name'', JStr ''customers''), (''namespace'', JUndefined)]),
                                                   (''stream_state'', JNum ''7'')])])"
    by (simp add: decodeStreamRow_def)
  have a: "decodeState [?l, ?c] = Inr (JArr [(JObj [(''type'', JStr ''STREAM''),
                                                    (''stream'',
                                                     JObj [(''stream_descriptor'',
                                                            JObj [(''name'', JStr ''customers''), (''namespace'', JUndefined)]),
                                                           (''stream_state'', JNum ''7'')])])])"
  proof -
    have pre: "[?l, ?c] \<noteq> [] \<and> (length [?l, ?c] \<noteq> 1 \<or> notSentinel ([?l, ?c] ! 0))"
      by simp
    from sentinel_rows_filtered [of "[?l, ?c]", THEN conjunct1, THEN mp, OF pre, THEN conjunct1]
    have "decodeState [?l, ?c] =
        (case mapThrowing decodeStreamRow [?c] of
           Inl ex \<Rightarrow> Inl ex | Inr entries \<Rightarrow> Inr (JArr entries))"
      unfolding f1 .
    then show ?thesis by (simp add: dc)
  qed
  have sen: "\<forall>x \<in> set [?l, ?g]. \<not> notSentinel x" by (simp add: notSentinel_def)
  have b: "decodeState [?l, ?g] = Inr (JArr [])"
  proof -
    have pre: "length [?l, ?g] > 1 \<and> (\<forall>x \<in> set [?l, ?g]. \<not> notSentinel x)"
      using sen by simp
    from sentinel_rows_filtered [of "[?l, ?g]", THEN conjunct2, THEN conjunct1, THEN mp, OF pre]
    show ?thesis .
  qed
  have pc: "passesChecks sample_env ?q ?d ''http://syncctl'' sample_link sample_service"
    by (rule sample_passes)
  have nf: "\<not> isFullSync ?q" by (simp add: isFullSync_def)
  have rows: "findManyState ?d (syncId ?q) = [?l, ?g]"
    by (simp add: findManyState_def sample_query_def)
  have cat: "catalogFromDb ?d (package (config sample_service))
              (version (config sample_service)) (storageKey (link_data sample_link))
            = Some sample_catalog"
    by (simp add: catalogFromDb_def sample_defs)
  have cr: "tryManageOauthCreds sample_env (config sample_service) (fromId sample_link)
            = Inr (JObj [(''id'', JStr ''svc1'')])"
    by (simp add: sample_defs)
  have c: "\<exists>rq. snd (snd (handler sample_env ?q ?d)) = [Rpc rq] \<and> req_state rq = Some (JArr [])"
  proof -
    have pre: "passesChecks sample_env ?q ?d ''http://syncctl'' sample_link sample_service
        \<and> \<not> isFullSync ?q
        \<and> length (findManyState ?d (syncId ?q)) > 1
        \<and> (\<forall>x \<in> set (findManyState ?d (syncId ?q)). \<not> notSentinel x)
        \<and> catalogFromDb ?d (package (config sample_service)) (version (config sample_service))
             (storageKey (link_data sample_link)) = Some sample_catalog
        \<and> tryManageOauthCreds sample_env (config sample_service) (fromId sample_link)
             = Inr (JObj [(''id'', JStr ''svc1'')])"
      using pc nf sen cat cr unfolding rows by simp
    from sentinel_rows_filtered
           [of _ sample_env ?q ?d "''http://syncctl''" sample_link sample_service
               sample_catalog "JObj [(''id'', JStr ''svc1'')]",
            THEN conjunct2, THEN conjunct2, THEN mp, OF pre]
    show ?thesis .
  qed
  from a b pc c show ?thesis by blast
qed

subsection \<open>Falsy selection entries\<close>

text \<open>
  Claim C10 has a stream whose selection entry is falsy dropped exactly as if its key
  were absent. For the stream \<open>toString\<close> the two differ: with the entry
  \<open>{toString: null}\<close> the stream is dropped, and with the empty selection it is kept,
  since the read of the absent key is answered by \<open>Object.prototype.toString\<close>.
\<close>

theorem falsy_entry_not_as_absent:
  "selectStreamsFromCatalog \<lparr>streams = [[(''name'', JStr ''toString'')]]\<rparr>
     [(''toString'', JNull)]
     = JObj [(''streams'', JArr [])]
   \<and> selectStreamsFromCatalog \<lparr>streams = [[(''name'', JStr ''toString'')]]\<rparr> []
     = JObj [(''streams'',
              JArr [JObj [(''destination_sync_mode'', JStr ''overwrite''),
                          (''stream'', JObj [(''name'', JStr ''toString'')])]])]"
  by (simp add: selectStreamsFromCatalog_def configuredStream_def streamKey_def getProp_def
        objectPrototype_def)

end
